theory Spec2Isabelle
  imports Complex_Main "HOL-Library.Word"
begin

section \<open>Data model (tcan1463q1\_types.h, tcan1463q1\_simulator.h)\<close>

text \<open>
  The simulator is C code.  Structs are records, enums are datatypes, \<open>uint64_t\<close> is
  \<open>64 word\<close> (so \<open>+\<close> and \<open>-\<close> wrap as in C), \<open>double\<close> voltages and temperatures are
  modelled as \<open>real\<close> (no NaN, no rounding; the constants involved are compared, added and
  halved only).  Every function takes the structure it mutates and returns the updated
  one.  Pointers are always valid in the model, so the \<open>if (!p) return\<close> guards of the
  source have no counterpart, except for the heap-allocated INH controller and the
  snapshot buffer, which are \<open>option\<close>s.
\<close>

type_synonym u64 = "64 word"

datatype PinType =
    PIN_TXD | PIN_RXD | PIN_EN | PIN_NSTB | PIN_NFAULT | PIN_WAKE | PIN_INH
  | PIN_INH_MASK | PIN_CANH | PIN_CANL | PIN_VSUP | PIN_VCC | PIN_VIO | PIN_GND

datatype PinState =
    PIN_STATE_LOW | PIN_STATE_HIGH | PIN_STATE_HIGH_IMPEDANCE | PIN_STATE_ANALOG

datatype OperatingMode =
    MODE_NORMAL | MODE_SILENT | MODE_STANDBY | MODE_GO_TO_SLEEP | MODE_SLEEP | MODE_OFF

datatype BusState = BUS_STATE_DOMINANT | BUS_STATE_RECESSIVE | BUS_STATE_INDETERMINATE

datatype CANTransceiverState =
    CAN_STATE_OFF | CAN_STATE_AUTONOMOUS_INACTIVE | CAN_STATE_AUTONOMOUS_ACTIVE
  | CAN_STATE_ACTIVE

datatype BusBiasState =
    BIAS_STATE_OFF | BIAS_STATE_AUTONOMOUS_INACTIVE | BIAS_STATE_AUTONOMOUS_ACTIVE
  | BIAS_STATE_ACTIVE

datatype WUPState =
    WUP_STATE_IDLE | WUP_STATE_FIRST_DOMINANT | WUP_STATE_RECESSIVE
  | WUP_STATE_SECOND_DOMINANT | WUP_STATE_COMPLETE

text \<open>Field \<open>state\<close> of the C struct \<open>Pin\<close> is \<open>pin_state\<close> here (three structs of the
  source have a field of that name).\<close>

record Pin =
  pin_state :: PinState
  voltage :: real
  is_input :: bool
  is_output :: bool
  min_voltage :: real
  max_voltage :: real

text \<open>\<open>ModeState.wakerq_flag\<close> is \<open>mode_wakerq_flag\<close> (\<open>WakeState\<close> has the same name).\<close>

record ModeState =
  current_mode :: OperatingMode
  previous_mode :: OperatingMode
  mode_entry_time :: u64
  mode_wakerq_flag :: bool

text \<open>\<open>CANTransceiver.state\<close> is \<open>xcvr_state\<close>.\<close>

record CANTransceiver =
  xcvr_state :: CANTransceiverState
  driver_enabled :: bool
  receiver_enabled :: bool
  canh_voltage :: real
  canl_voltage :: real
  rxd_output :: bool
  rxd_pending :: bool
  rxd_pending_value :: bool
  rxd_update_time :: u64

record PowerState =
  vsup :: real
  vcc :: real
  vio :: real
  uvsup_flag :: bool
  uvcc_flag :: bool
  uvio_flag :: bool
  pwron_flag :: bool
  uvcc_start_time :: u64
  uvio_start_time :: u64

record FaultState =
  txdclp_flag :: bool
  txddto_flag :: bool
  txdrxd_flag :: bool
  candom_flag :: bool
  tsd_flag :: bool
  cbf_flag :: bool
  txd_dominant_start :: u64
  bus_dominant_start :: u64
  cbf_transition_count :: int

record WakeState =
  wakerq_flag :: bool
  wakesr_flag :: bool
  wake_source_local :: bool
  wup_state :: WUPState
  wup_phase_start :: u64
  wup_timeout_start :: u64
  wake_pin_prev_state :: bool

text \<open>\<open>BusBiasController.state\<close> is \<open>bias_state\<close>.\<close>

record BusBiasController =
  bias_state :: BusBiasState
  last_bus_activity :: u64

record TimingEngine =
  current_time_ns :: u64
  last_update_ns :: u64

record INHController =
  inh_enabled :: bool
  inh_output_high :: bool
  wake_event_time :: u64
  pending_inh_assertion :: bool

record TimingParameters =
  tuv_ms :: real
  ttxddto_ms :: real
  tbusdom_ms :: real
  twk_filter_us :: real
  twk_timeout_ms :: real
  tsilence_s :: real

datatype SimulatorEventType =
    EVENT_MODE_CHANGE | EVENT_FAULT_DETECTED | EVENT_WAKE_UP | EVENT_PIN_CHANGE
  | EVENT_FLAG_CHANGE

text \<open>
  \<open>TCAN1463Q1Simulator\<close>.  The array \<open>pins[14]\<close> is a function of the pin enum.  The
  member \<open>inh_controller\<close> is a pointer to a heap object owned by the instance; the model
  holds the object itself, \<open>None\<close> for a null pointer, in the field \<open>inh_controller_ptr\<close>
  and the member \<open>can_transceiver\<close> is the field \<open>can_xcvr\<close> (the update functions of
  the record would otherwise take the names of the source functions
  \<open>inh_controller_update\<close> and \<open>can_transceiver_update\<close>).  The five callback lists are lists
  of (callback, user data) addresses.
\<close>

record TCAN1463Q1Simulator =
  pins :: "PinType \<Rightarrow> Pin"
  mode_state :: ModeState
  can_xcvr :: CANTransceiver
  power_state :: PowerState
  fault_state :: FaultState
  wake_state :: WakeState
  bus_bias :: BusBiasController
  inh_controller_ptr :: "INHController option"
  timing :: TimingEngine
  tj_temperature :: real
  rl_resistance :: real
  cl_capacitance :: real
  timing_params :: TimingParameters
  callbacks :: "SimulatorEventType \<Rightarrow> (nat \<times> nat) list"

text \<open>
  The two variables with static storage duration: \<open>last_bus_activity_time\<close> at file scope
  in can\_transceiver.cpp and \<open>prev_bus_state\<close>, local to \<open>fault_detector_check_cbf\<close>.
  They belong to no instance, so the functions that touch them take and return them.
\<close>

record Statics =
  last_bus_activity_time :: u64
  prev_bus_state :: BusState

definition UINT64_MAX :: u64 where
  "UINT64_MAX = - 1"

definition statics_at_load :: Statics where
  "statics_at_load = \<lparr>last_bus_activity_time = 0, prev_bus_state = BUS_STATE_RECESSIVE\<rparr>"

section \<open>Pin store (pin\_manager.cpp)\<close>

definition pin_voltage_ranges :: "PinType \<Rightarrow> real \<times> real" where
  "pin_voltage_ranges p = (case p of
      PIN_TXD \<Rightarrow> (0, 55 / 10)
    | PIN_RXD \<Rightarrow> (0, 55 / 10)
    | PIN_EN \<Rightarrow> (0, 55 / 10)
    | PIN_NSTB \<Rightarrow> (0, 55 / 10)
    | PIN_NFAULT \<Rightarrow> (0, 55 / 10)
    | PIN_WAKE \<Rightarrow> (0, 55 / 10)
    | PIN_INH \<Rightarrow> (0, 42)
    | PIN_INH_MASK \<Rightarrow> (0, 55 / 10)
    | PIN_CANH \<Rightarrow> (- 27, 42)
    | PIN_CANL \<Rightarrow> (- 27, 42)
    | PIN_VSUP \<Rightarrow> (45 / 10, 42)
    | PIN_VCC \<Rightarrow> (45 / 10, 55 / 10)
    | PIN_VIO \<Rightarrow> (165 / 100, 55 / 10)
    | PIN_GND \<Rightarrow> (0, 0))"

text \<open>\<open>pin_directions\<close>: (is\_input, is\_output).\<close>

definition pin_directions :: "PinType \<Rightarrow> bool \<times> bool" where
  "pin_directions p = (case p of
      PIN_TXD \<Rightarrow> (True, False)
    | PIN_RXD \<Rightarrow> (False, True)
    | PIN_EN \<Rightarrow> (True, False)
    | PIN_NSTB \<Rightarrow> (True, False)
    | PIN_NFAULT \<Rightarrow> (False, True)
    | PIN_WAKE \<Rightarrow> (True, False)
    | PIN_INH \<Rightarrow> (False, True)
    | PIN_INH_MASK \<Rightarrow> (True, False)
    | PIN_CANH \<Rightarrow> (True, True)
    | PIN_CANL \<Rightarrow> (True, True)
    | PIN_VSUP \<Rightarrow> (True, False)
    | PIN_VCC \<Rightarrow> (True, False)
    | PIN_VIO \<Rightarrow> (True, False)
    | PIN_GND \<Rightarrow> (True, False))"

definition pin_init :: "bool \<Rightarrow> bool \<Rightarrow> real \<Rightarrow> real \<Rightarrow> Pin" where
  "pin_init inp outp minv maxv =
     \<lparr>pin_state = PIN_STATE_LOW, voltage = 0, is_input = inp, is_output = outp,
      min_voltage = minv, max_voltage = maxv\<rparr>"

definition pin_validate_voltage :: "Pin \<Rightarrow> real \<Rightarrow> bool" where
  "pin_validate_voltage pin v =
     (if pin_state pin \<noteq> PIN_STATE_ANALOG \<and> v = 0 then True
      else if v < min_voltage pin \<or> v > max_voltage pin then False
      else True)"

text \<open>The result pairs the returned \<open>bool\<close> with the pin as the call leaves it.\<close>

definition pin_set_value :: "Pin \<Rightarrow> PinState \<Rightarrow> real \<Rightarrow> bool \<times> Pin" where
  "pin_set_value pin st v =
     (if \<not> pin_validate_voltage pin v then (False, pin)
      else (True, pin\<lparr>pin_state := st, voltage := v\<rparr>))"

definition pin_get_value :: "Pin \<Rightarrow> PinState \<times> real" where
  "pin_get_value pin = (pin_state pin, voltage pin)"

text \<open>\<open>PinManager\<close> is a struct with the single member \<open>pins[14]\<close>.\<close>

type_synonym PinManager = "PinType \<Rightarrow> Pin"

definition pin_manager_init :: PinManager where
  "pin_manager_init =
    (let m0 = (\<lambda>p. pin_init (fst (pin_directions p)) (snd (pin_directions p))
                      (fst (pin_voltage_ranges p)) (snd (pin_voltage_ranges p)));
         m1 = m0(PIN_TXD := (m0 PIN_TXD)\<lparr>pin_state := PIN_STATE_HIGH\<rparr>,
                 PIN_EN := (m0 PIN_EN)\<lparr>pin_state := PIN_STATE_LOW\<rparr>,
                 PIN_NSTB := (m0 PIN_NSTB)\<lparr>pin_state := PIN_STATE_LOW\<rparr>,
                 PIN_WAKE := (m0 PIN_WAKE)\<lparr>pin_state := PIN_STATE_LOW\<rparr>,
                 PIN_INH_MASK := (m0 PIN_INH_MASK)\<lparr>pin_state := PIN_STATE_LOW\<rparr>,
                 PIN_RXD := (m0 PIN_RXD)\<lparr>pin_state := PIN_STATE_HIGH\<rparr>,
                 PIN_NFAULT := (m0 PIN_NFAULT)\<lparr>pin_state := PIN_STATE_HIGH\<rparr>,
                 PIN_INH := (m0 PIN_INH)\<lparr>pin_state := PIN_STATE_HIGH_IMPEDANCE\<rparr>,
                 PIN_CANH := (m0 PIN_CANH)\<lparr>pin_state := PIN_STATE_HIGH_IMPEDANCE, voltage := 0\<rparr>,
                 PIN_CANL := (m0 PIN_CANL)\<lparr>pin_state := PIN_STATE_HIGH_IMPEDANCE, voltage := 0\<rparr>,
                 PIN_VSUP := (m0 PIN_VSUP)\<lparr>pin_state := PIN_STATE_ANALOG, voltage := 12\<rparr>,
                 PIN_VCC := (m0 PIN_VCC)\<lparr>pin_state := PIN_STATE_ANALOG, voltage := 5\<rparr>,
                 PIN_VIO := (m0 PIN_VIO)\<lparr>pin_state := PIN_STATE_ANALOG, voltage := 33 / 10\<rparr>,
                 PIN_GND := (m0 PIN_GND)\<lparr>pin_state := PIN_STATE_ANALOG, voltage := 0\<rparr>)
     in m1)"

text \<open>
  The enum argument \<open>pin_type\<close> arrives as an integer, which the source checks against
  the array bounds before indexing.
\<close>

definition pin_of_index :: "int \<Rightarrow> PinType option" where
  "pin_of_index i =
     (if i = 0 then Some PIN_TXD else if i = 1 then Some PIN_RXD
      else if i = 2 then Some PIN_EN else if i = 3 then Some PIN_NSTB
      else if i = 4 then Some PIN_NFAULT else if i = 5 then Some PIN_WAKE
      else if i = 6 then Some PIN_INH else if i = 7 then Some PIN_INH_MASK
      else if i = 8 then Some PIN_CANH else if i = 9 then Some PIN_CANL
      else if i = 10 then Some PIN_VSUP else if i = 11 then Some PIN_VCC
      else if i = 12 then Some PIN_VIO else if i = 13 then Some PIN_GND
      else None)"

definition pin_index :: "PinType \<Rightarrow> int" where
  "pin_index p = (case p of
      PIN_TXD \<Rightarrow> 0 | PIN_RXD \<Rightarrow> 1 | PIN_EN \<Rightarrow> 2 | PIN_NSTB \<Rightarrow> 3 | PIN_NFAULT \<Rightarrow> 4
    | PIN_WAKE \<Rightarrow> 5 | PIN_INH \<Rightarrow> 6 | PIN_INH_MASK \<Rightarrow> 7 | PIN_CANH \<Rightarrow> 8
    | PIN_CANL \<Rightarrow> 9 | PIN_VSUP \<Rightarrow> 10 | PIN_VCC \<Rightarrow> 11 | PIN_VIO \<Rightarrow> 12 | PIN_GND \<Rightarrow> 13)"

definition pin_manager_set_pin ::
  "PinManager \<Rightarrow> int \<Rightarrow> PinState \<Rightarrow> real \<Rightarrow> bool \<times> PinManager" where
  "pin_manager_set_pin manager pin_type st v =
     (if pin_type < 0 \<or> pin_type \<ge> 14 then (False, manager)
      else case pin_of_index pin_type of
        None \<Rightarrow> (False, manager)
      | Some p \<Rightarrow>
          (if \<not> is_input (manager p) then (False, manager)
           else (fst (pin_set_value (manager p) st v),
                 manager(p := snd (pin_set_value (manager p) st v)))))"

definition pin_manager_get_pin :: "PinManager \<Rightarrow> int \<Rightarrow> (PinState \<times> real) option" where
  "pin_manager_get_pin manager pin_type =
     (if pin_type < 0 \<or> pin_type \<ge> 14 then None
      else map_option (\<lambda>p. pin_get_value (manager p)) (pin_of_index pin_type))"

section \<open>Timing engine (timing\_engine.c)\<close>

definition timing_engine_init :: TimingEngine where
  "timing_engine_init = \<lparr>current_time_ns = 0, last_update_ns = 0\<rparr>"

definition timing_engine_advance :: "TimingEngine \<Rightarrow> u64 \<Rightarrow> TimingEngine" where
  "timing_engine_advance engine delta_ns =
     engine\<lparr>last_update_ns := current_time_ns engine,
            current_time_ns := current_time_ns engine + delta_ns\<rparr>"

definition timing_engine_get_time :: "TimingEngine \<Rightarrow> u64" where
  "timing_engine_get_time engine = current_time_ns engine"

section \<open>Power monitor (power\_monitor.c)\<close>

text \<open>\<open>MS_TO_NS(TUV_MIN_MS)\<close> is \<open>(uint64_t)(100) * 1000000ULL\<close>.\<close>

definition TUV_MIN_NS :: u64 where
  "TUV_MIN_NS = 100000000"

definition UVSUP_FALLING_MIN :: real where "UVSUP_FALLING_MIN = 35 / 10"
definition UVSUP_RISING_MIN :: real where "UVSUP_RISING_MIN = 385 / 100"
definition UVCC_FALLING_MAX :: real where "UVCC_FALLING_MAX = 39 / 10"
definition UVCC_RISING_MIN :: real where "UVCC_RISING_MIN = 41 / 10"
definition UVIO_FALLING_MAX :: real where "UVIO_FALLING_MAX = 125 / 100"
definition UVIO_RISING_MIN :: real where "UVIO_RISING_MIN = 14 / 10"

definition power_monitor_init :: PowerState where
  "power_monitor_init =
     \<lparr>vsup = 12, vcc = 5, vio = 33 / 10, uvsup_flag = False, uvcc_flag = False,
      uvio_flag = False, pwron_flag = False, uvcc_start_time = UINT64_MAX,
      uvio_start_time = UINT64_MAX\<rparr>"

text \<open>The three monitoring blocks of \<open>power_monitor_update\<close>, in the order of the source.\<close>

definition power_monitor_vsup_block :: "PowerState \<Rightarrow> real \<Rightarrow> PowerState" where
  "power_monitor_vsup_block st v =
     (if \<not> uvsup_flag st \<and> v \<le> UVSUP_FALLING_MIN then st\<lparr>uvsup_flag := True\<rparr>
      else if uvsup_flag st \<and> v > UVSUP_RISING_MIN
        then st\<lparr>uvsup_flag := False, pwron_flag := True\<rparr>
      else st)"

definition power_monitor_vcc_block ::
  "PowerState \<Rightarrow> real \<Rightarrow> real \<Rightarrow> u64 \<Rightarrow> PowerState" where
  "power_monitor_vcc_block st v prev_vcc current_time =
     (if v < UVCC_FALLING_MAX then
        (let st1 = (if uvcc_start_time st = UINT64_MAX
                    then st\<lparr>uvcc_start_time := current_time\<rparr> else st);
             elapsed_ns = current_time - uvcc_start_time st1
         in if elapsed_ns \<ge> TUV_MIN_NS \<and> \<not> uvcc_flag st1
            then st1\<lparr>uvcc_flag := True\<rparr> else st1)
      else if v > UVCC_RISING_MIN then
        (let st1 = (if uvcc_flag st then st\<lparr>uvcc_flag := False\<rparr> else st)
         in st1\<lparr>uvcc_start_time := UINT64_MAX\<rparr>)
      else (if v > prev_vcc then st\<lparr>uvcc_start_time := UINT64_MAX\<rparr> else st))"

definition power_monitor_vio_block ::
  "PowerState \<Rightarrow> real \<Rightarrow> real \<Rightarrow> u64 \<Rightarrow> PowerState" where
  "power_monitor_vio_block st v prev_vio current_time =
     (if v < UVIO_FALLING_MAX then
        (let st1 = (if uvio_start_time st = UINT64_MAX
                    then st\<lparr>uvio_start_time := current_time\<rparr> else st);
             elapsed_ns = current_time - uvio_start_time st1
         in if elapsed_ns \<ge> TUV_MIN_NS \<and> \<not> uvio_flag st1
            then st1\<lparr>uvio_flag := True\<rparr> else st1)
      else if v > UVIO_RISING_MIN then
        (let st1 = (if uvio_flag st then st\<lparr>uvio_flag := False\<rparr> else st)
         in st1\<lparr>uvio_start_time := UINT64_MAX\<rparr>)
      else (if v > prev_vio then st\<lparr>uvio_start_time := UINT64_MAX\<rparr> else st))"

definition power_monitor_update ::
  "PowerState \<Rightarrow> real \<Rightarrow> real \<Rightarrow> real \<Rightarrow> u64 \<Rightarrow> PowerState" where
  "power_monitor_update st vsup_in vcc_in vio_in current_time =
     (let prev_vcc = vcc st;
          prev_vio = vio st;
          st1 = st\<lparr>vsup := vsup_in, vcc := vcc_in, vio := vio_in\<rparr>;
          st2 = power_monitor_vsup_block st1 vsup_in;
          st3 = power_monitor_vcc_block st2 vcc_in prev_vcc current_time
      in power_monitor_vio_block st3 vio_in prev_vio current_time)"

definition power_monitor_is_vsup_valid :: "PowerState \<Rightarrow> bool" where
  "power_monitor_is_vsup_valid st = (\<not> uvsup_flag st)"

definition power_monitor_clear_pwron_flag :: "PowerState \<Rightarrow> PowerState" where
  "power_monitor_clear_pwron_flag st = st\<lparr>pwron_flag := False\<rparr>"

section \<open>Mode controller (mode\_controller.c)\<close>

text \<open>\<open>S_TO_NS(TSILENCE_MIN_S)\<close> is \<open>(uint64_t)(0.6 * 1000000000ULL)\<close>.\<close>

definition MODE_TSILENCE_NS :: u64 where
  "MODE_TSILENCE_NS = 600000000"

definition valid_transitions :: "(OperatingMode \<times> OperatingMode) list" where
  "valid_transitions =
     [(MODE_OFF, MODE_NORMAL), (MODE_OFF, MODE_SILENT),
      (MODE_NORMAL, MODE_SILENT), (MODE_SILENT, MODE_NORMAL),
      (MODE_NORMAL, MODE_STANDBY), (MODE_SILENT, MODE_STANDBY),
      (MODE_NORMAL, MODE_GO_TO_SLEEP), (MODE_SILENT, MODE_GO_TO_SLEEP),
      (MODE_GO_TO_SLEEP, MODE_SLEEP),
      (MODE_STANDBY, MODE_NORMAL), (MODE_STANDBY, MODE_SILENT),
      (MODE_SLEEP, MODE_STANDBY),
      (MODE_NORMAL, MODE_OFF), (MODE_SILENT, MODE_OFF), (MODE_STANDBY, MODE_OFF),
      (MODE_GO_TO_SLEEP, MODE_OFF), (MODE_SLEEP, MODE_OFF)]"

definition mode_controller_init :: ModeState where
  "mode_controller_init =
     \<lparr>current_mode = MODE_OFF, previous_mode = MODE_OFF, mode_entry_time = 0,
      mode_wakerq_flag = False\<rparr>"

text \<open>The \<open>for\<close> loop over the table returns at the first matching entry.\<close>

fun table_lookup ::
  "(OperatingMode \<times> OperatingMode) list \<Rightarrow> OperatingMode \<Rightarrow> OperatingMode \<Rightarrow> bool" where
  "table_lookup [] from_mode to_mode = False"
| "table_lookup (t # ts) from_mode to_mode =
     (if fst t = from_mode \<and> snd t = to_mode then True
      else table_lookup ts from_mode to_mode)"

definition mode_controller_can_transition :: "OperatingMode \<Rightarrow> OperatingMode \<Rightarrow> bool" where
  "mode_controller_can_transition from_mode to_mode =
     (if from_mode = to_mode then True
      else table_lookup valid_transitions from_mode to_mode)"

definition determine_target_mode ::
  "OperatingMode \<Rightarrow> bool \<Rightarrow> bool \<Rightarrow> bool \<Rightarrow> bool \<Rightarrow> u64 \<Rightarrow> OperatingMode" where
  "determine_target_mode cur en_high nstb_high vsup_valid wakerq_set time_in_mode =
     (if \<not> vsup_valid then MODE_OFF
      else if cur = MODE_GO_TO_SLEEP \<and> time_in_mode \<ge> MODE_TSILENCE_NS then MODE_SLEEP
      else if nstb_high then (if en_high then MODE_NORMAL else MODE_SILENT)
      else if wakerq_set then MODE_STANDBY
      else if cur = MODE_SLEEP then MODE_SLEEP
      else MODE_GO_TO_SLEEP)"

text \<open>Returns the mode the call returns together with the updated state.\<close>

definition mode_controller_update ::
  "ModeState \<Rightarrow> bool \<Rightarrow> bool \<Rightarrow> bool \<Rightarrow> bool \<Rightarrow> u64 \<Rightarrow> OperatingMode \<times> ModeState" where
  "mode_controller_update st en_high nstb_high vsup_valid wakerq_set current_time =
     (let time_in_mode = (if current_time \<ge> mode_entry_time st
                          then current_time - mode_entry_time st else 0);
          target_mode = determine_target_mode (current_mode st) en_high nstb_high
                          vsup_valid wakerq_set time_in_mode;
          st1 = (if target_mode \<noteq> current_mode st
                 then (if mode_controller_can_transition (current_mode st) target_mode
                       then st\<lparr>previous_mode := current_mode st,
                               current_mode := target_mode,
                               mode_entry_time := current_time\<rparr>
                       else st)
                 else st)
      in (current_mode st1, st1))"

section \<open>CAN transceiver (can\_transceiver.c)\<close>

definition VDIFF_DOMINANT_THRESHOLD :: real where "VDIFF_DOMINANT_THRESHOLD = 9 / 10"
definition VDIFF_RECESSIVE_THRESHOLD :: real where "VDIFF_RECESSIVE_THRESHOLD = 5 / 10"
definition CANH_DOMINANT_VOLTAGE :: real where "CANH_DOMINANT_VOLTAGE = 35 / 10"
definition CANL_DOMINANT_VOLTAGE :: real where "CANL_DOMINANT_VOLTAGE = 15 / 10"
definition CANH_RECESSIVE_VOLTAGE :: real where "CANH_RECESSIVE_VOLTAGE = 25 / 10"
definition CANL_RECESSIVE_VOLTAGE :: real where "CANL_RECESSIVE_VOLTAGE = 25 / 10"

definition XCVR_TSILENCE_NS :: u64 where
  "XCVR_TSILENCE_NS = 1000000000"

definition TPROP_LOOP1_MIN_NS :: u64 where "TPROP_LOOP1_MIN_NS = 100"
definition TPROP_LOOP1_MAX_NS :: u64 where "TPROP_LOOP1_MAX_NS = 190"
definition TPROP_LOOP2_MIN_NS :: u64 where "TPROP_LOOP2_MIN_NS = 110"
definition TPROP_LOOP2_MAX_NS :: u64 where "TPROP_LOOP2_MAX_NS = 190"

text \<open>\<open>can_transceiver_init\<close> also resets the file-scope static.\<close>

definition can_transceiver_init :: "Statics \<Rightarrow> Statics \<times> CANTransceiver" where
  "can_transceiver_init g =
     (g\<lparr>last_bus_activity_time := 0\<rparr>,
      \<lparr>xcvr_state = CAN_STATE_OFF, driver_enabled = False, receiver_enabled = False,
       canh_voltage = 0, canl_voltage = 0, rxd_output = True, rxd_pending = False,
       rxd_pending_value = True, rxd_update_time = 0\<rparr>)"

definition can_transceiver_get_bus_state :: "real \<Rightarrow> BusState" where
  "can_transceiver_get_bus_state vdiff =
     (if vdiff \<ge> VDIFF_DOMINANT_THRESHOLD then BUS_STATE_DOMINANT
      else if vdiff \<le> VDIFF_RECESSIVE_THRESHOLD then BUS_STATE_RECESSIVE
      else BUS_STATE_INDETERMINATE)"

text \<open>Returns the transceiver and the two out-parameters \<open>*canh\<close>, \<open>*canl\<close>.\<close>

definition can_transceiver_drive_bus ::
  "CANTransceiver \<Rightarrow> bool \<Rightarrow> CANTransceiver \<times> real \<times> real" where
  "can_transceiver_drive_bus tr dominant =
     (if dominant \<and> driver_enabled tr
      then (tr\<lparr>canh_voltage := CANH_DOMINANT_VOLTAGE, canl_voltage := CANL_DOMINANT_VOLTAGE\<rparr>,
            CANH_DOMINANT_VOLTAGE, CANL_DOMINANT_VOLTAGE)
      else (tr\<lparr>canh_voltage := CANH_RECESSIVE_VOLTAGE, canl_voltage := CANL_RECESSIVE_VOLTAGE\<rparr>,
            CANH_RECESSIVE_VOLTAGE, CANL_RECESSIVE_VOLTAGE))"

text \<open>The delay chosen for a new target: the integer middle of the documented window.\<close>

definition prop_delay :: "bool \<Rightarrow> u64" where
  "prop_delay target_rxd =
     (if \<not> target_rxd then (TPROP_LOOP1_MIN_NS + TPROP_LOOP1_MAX_NS) div 2
      else (TPROP_LOOP2_MIN_NS + TPROP_LOOP2_MAX_NS) div 2)"

definition can_transceiver_update_rxd ::
  "CANTransceiver \<Rightarrow> BusState \<Rightarrow> u64 \<Rightarrow> u64 \<Rightarrow> CANTransceiver" where
  "can_transceiver_update_rxd tr bus_state current_time schedule_time =
     (if \<not> receiver_enabled tr then tr\<lparr>rxd_output := True, rxd_pending := False\<rparr>
      else
       (let tr1 = (if rxd_pending tr \<and> current_time \<ge> rxd_update_time tr
                   then tr\<lparr>rxd_output := rxd_pending_value tr, rxd_pending := False\<rparr>
                   else tr)
        in case bus_state of
             BUS_STATE_INDETERMINATE \<Rightarrow> tr1
           | _ \<Rightarrow>
            (let target_rxd = (bus_state = BUS_STATE_RECESSIVE);
                 needs_update = (target_rxd \<noteq> rxd_output tr1);
                 pending_is_stale = (rxd_pending tr1 \<and> rxd_pending_value tr1 \<noteq> target_rxd)
             in if needs_update \<and> (\<not> rxd_pending tr1 \<or> pending_is_stale) then
                  (let update_time = schedule_time + prop_delay target_rxd
                   in if update_time \<le> current_time
                      then tr1\<lparr>rxd_output := target_rxd, rxd_pending := False\<rparr>
                      else tr1\<lparr>rxd_pending := True, rxd_pending_value := target_rxd,
                               rxd_update_time := update_time\<rparr>)
                else tr1)))"

text \<open>The second \<open>switch\<close> of the state machine: enables from state and mode.\<close>

definition xcvr_enables :: "CANTransceiver \<Rightarrow> OperatingMode \<Rightarrow> CANTransceiver" where
  "xcvr_enables tr m =
     (case xcvr_state tr of
        CAN_STATE_OFF \<Rightarrow> tr\<lparr>driver_enabled := False, receiver_enabled := False\<rparr>
      | CAN_STATE_AUTONOMOUS_INACTIVE \<Rightarrow> tr\<lparr>driver_enabled := False, receiver_enabled := True\<rparr>
      | CAN_STATE_AUTONOMOUS_ACTIVE \<Rightarrow> tr\<lparr>driver_enabled := False, receiver_enabled := True\<rparr>
      | CAN_STATE_ACTIVE \<Rightarrow>
          (if m = MODE_NORMAL then tr\<lparr>driver_enabled := True, receiver_enabled := True\<rparr>
           else if m = MODE_SILENT then tr\<lparr>driver_enabled := False, receiver_enabled := True\<rparr>
           else tr\<lparr>driver_enabled := False, receiver_enabled := False\<rparr>))"

definition can_transceiver_update_state_machine ::
  "Statics \<Rightarrow> CANTransceiver \<Rightarrow> OperatingMode \<Rightarrow> BusState \<Rightarrow> bool \<Rightarrow> u64
     \<Rightarrow> Statics \<times> CANTransceiver" where
  "can_transceiver_update_state_machine g tr m bus_state vsup_valid current_time =
     (let g1 = (if bus_state = BUS_STATE_DOMINANT
                then g\<lparr>last_bus_activity_time := current_time\<rparr> else g);
          g2 = (if last_bus_activity_time g1 = 0
                then g1\<lparr>last_bus_activity_time := current_time\<rparr> else g1);
          (g3, tr1) =
            (case xcvr_state tr of
               CAN_STATE_OFF \<Rightarrow>
                 (if vsup_valid then (g2, tr\<lparr>xcvr_state := CAN_STATE_AUTONOMOUS_INACTIVE\<rparr>)
                  else (g2, tr))
             | CAN_STATE_AUTONOMOUS_INACTIVE \<Rightarrow>
                 (if \<not> vsup_valid then (g2, tr\<lparr>xcvr_state := CAN_STATE_OFF\<rparr>)
                  else if m = MODE_NORMAL \<or> m = MODE_SILENT
                    then (g2, tr\<lparr>xcvr_state := CAN_STATE_ACTIVE\<rparr>)
                  else if bus_state = BUS_STATE_DOMINANT
                    then (g2\<lparr>last_bus_activity_time := current_time\<rparr>,
                          tr\<lparr>xcvr_state := CAN_STATE_AUTONOMOUS_ACTIVE\<rparr>)
                  else (g2, tr))
             | CAN_STATE_AUTONOMOUS_ACTIVE \<Rightarrow>
                 (if \<not> vsup_valid then (g2, tr\<lparr>xcvr_state := CAN_STATE_OFF\<rparr>)
                  else if m = MODE_NORMAL \<or> m = MODE_SILENT
                    then (g2, tr\<lparr>xcvr_state := CAN_STATE_ACTIVE\<rparr>)
                  else if current_time - last_bus_activity_time g2 > XCVR_TSILENCE_NS
                    then (g2, tr\<lparr>xcvr_state := CAN_STATE_AUTONOMOUS_INACTIVE\<rparr>)
                  else (g2, tr))
             | CAN_STATE_ACTIVE \<Rightarrow>
                 (if \<not> vsup_valid then (g2, tr\<lparr>xcvr_state := CAN_STATE_OFF\<rparr>)
                  else if m \<noteq> MODE_NORMAL \<and> m \<noteq> MODE_SILENT then
                    (if bus_state = BUS_STATE_DOMINANT
                        \<or> current_time - last_bus_activity_time g2 \<le> XCVR_TSILENCE_NS
                     then (g2, tr\<lparr>xcvr_state := CAN_STATE_AUTONOMOUS_ACTIVE\<rparr>)
                     else (g2, tr\<lparr>xcvr_state := CAN_STATE_AUTONOMOUS_INACTIVE\<rparr>))
                  else (g2, tr)))
      in (g3, xcvr_enables tr1 m))"

definition can_transceiver_update ::
  "Statics \<Rightarrow> CANTransceiver \<Rightarrow> OperatingMode \<Rightarrow> bool \<Rightarrow> real \<Rightarrow> real \<Rightarrow> u64
     \<Rightarrow> Statics \<times> CANTransceiver" where
  "can_transceiver_update g tr m txd_low canh_v canl_v current_time =
     (let vdiff = canh_v - canl_v;
          bus_state = can_transceiver_get_bus_state vdiff;
          vsup_valid = (m \<noteq> MODE_OFF);
          (g1, tr1) = can_transceiver_update_state_machine g tr m bus_state vsup_valid
                        current_time
      in (g1, fst (can_transceiver_drive_bus tr1 txd_low)))"

section \<open>Bus bias controller (bus\_bias\_controller.cpp)\<close>

definition bus_bias_controller_init :: BusBiasController where
  "bus_bias_controller_init = \<lparr>bias_state = BIAS_STATE_OFF, last_bus_activity = 0\<rparr>"

definition bus_bias_controller_update ::
  "BusBiasController \<Rightarrow> CANTransceiverState \<Rightarrow> BusState \<Rightarrow> u64 \<Rightarrow> BusBiasController" where
  "bus_bias_controller_update c can_state bus_state current_time =
     (let c1 = (if bus_state = BUS_STATE_DOMINANT
                then c\<lparr>last_bus_activity := current_time\<rparr> else c);
          c2 = (if last_bus_activity c1 = 0
                then c1\<lparr>last_bus_activity := current_time\<rparr> else c1)
      in case can_state of
           CAN_STATE_OFF \<Rightarrow> c2\<lparr>bias_state := BIAS_STATE_OFF\<rparr>
         | CAN_STATE_AUTONOMOUS_INACTIVE \<Rightarrow> c2\<lparr>bias_state := BIAS_STATE_AUTONOMOUS_INACTIVE\<rparr>
         | CAN_STATE_AUTONOMOUS_ACTIVE \<Rightarrow> c2\<lparr>bias_state := BIAS_STATE_AUTONOMOUS_ACTIVE\<rparr>
         | CAN_STATE_ACTIVE \<Rightarrow> c2\<lparr>bias_state := BIAS_STATE_ACTIVE\<rparr>)"

definition bus_bias_controller_get_bias :: "BusBiasController \<Rightarrow> real \<Rightarrow> real \<times> real" where
  "bus_bias_controller_get_bias c vcc_v =
     (case bias_state c of
        BIAS_STATE_OFF \<Rightarrow> (0, 0)
      | BIAS_STATE_AUTONOMOUS_INACTIVE \<Rightarrow> (0, 0)
      | BIAS_STATE_AUTONOMOUS_ACTIVE \<Rightarrow> (25 / 10, 25 / 10)
      | BIAS_STATE_ACTIVE \<Rightarrow> (vcc_v / 2, vcc_v / 2))"

section \<open>Fault detector (fault\_detector.cpp)\<close>

text \<open>\<open>MS_TO_NS(TTXDDTO_MIN_MS)\<close> is \<open>(uint64_t)(1.2 * 1000000.0)\<close> and
  \<open>MS_TO_NS(TBUSDOM_MIN_MS)\<close> is \<open>(uint64_t)(1.4 * 1000000.0)\<close>; both products are exact
  in double precision.\<close>

definition TTXDDTO_MIN_NS :: u64 where "TTXDDTO_MIN_NS = 1200000"
definition TBUSDOM_MIN_NS :: u64 where "TBUSDOM_MIN_NS = 1400000"
definition TSDR_CELSIUS :: real where "TSDR_CELSIUS = 165"

definition fault_detector_init :: FaultState where
  "fault_detector_init =
     \<lparr>txdclp_flag = False, txddto_flag = False, txdrxd_flag = False, candom_flag = False,
      tsd_flag = False, cbf_flag = False, txd_dominant_start = UINT64_MAX,
      bus_dominant_start = UINT64_MAX, cbf_transition_count = 0\<rparr>"

definition fault_detector_check_txdclp ::
  "FaultState \<Rightarrow> bool \<Rightarrow> OperatingMode \<Rightarrow> FaultState" where
  "fault_detector_check_txdclp st txd_low entering_mode =
     (if entering_mode = MODE_NORMAL \<and> txd_low then st\<lparr>txdclp_flag := True\<rparr> else st)"

definition fault_detector_check_txddto :: "FaultState \<Rightarrow> bool \<Rightarrow> u64 \<Rightarrow> FaultState" where
  "fault_detector_check_txddto st txd_low current_time =
     (if txd_low then
        (if txd_dominant_start st = UINT64_MAX
         then st\<lparr>txd_dominant_start := current_time\<rparr>
         else (let dominant_duration = current_time - txd_dominant_start st
               in if dominant_duration \<ge> TTXDDTO_MIN_NS
                  then st\<lparr>txddto_flag := True\<rparr> else st))
      else st\<lparr>txd_dominant_start := UINT64_MAX\<rparr>)"

text \<open>The short check keeps its start time in \<open>txd_dominant_start\<close>, the field of the
  dominant-timeout check.\<close>

definition fault_detector_check_txdrxd ::
  "FaultState \<Rightarrow> bool \<Rightarrow> bool \<Rightarrow> u64 \<Rightarrow> FaultState" where
  "fault_detector_check_txdrxd st txd_low rxd_low current_time =
     (let shorted = (txd_low = rxd_low)
      in if shorted then
           (if txd_dominant_start st = UINT64_MAX
            then st\<lparr>txd_dominant_start := current_time\<rparr>
            else (let short_duration = current_time - txd_dominant_start st
                  in if short_duration \<ge> TTXDDTO_MIN_NS
                     then st\<lparr>txdrxd_flag := True\<rparr> else st))
         else st\<lparr>txd_dominant_start := UINT64_MAX\<rparr>)"

definition fault_detector_check_candom ::
  "FaultState \<Rightarrow> BusState \<Rightarrow> u64 \<Rightarrow> FaultState" where
  "fault_detector_check_candom st bus_state current_time =
     (if bus_state = BUS_STATE_DOMINANT then
        (if bus_dominant_start st = UINT64_MAX
         then st\<lparr>bus_dominant_start := current_time\<rparr>
         else (let dominant_duration = current_time - bus_dominant_start st
               in if dominant_duration \<ge> TBUSDOM_MIN_NS
                  then st\<lparr>candom_flag := True\<rparr> else st))
      else st\<lparr>bus_dominant_start := UINT64_MAX\<rparr>)"

definition fault_detector_check_tsd :: "FaultState \<Rightarrow> real \<Rightarrow> FaultState" where
  "fault_detector_check_tsd st tj =
     (if tj \<ge> TSDR_CELSIUS then st\<lparr>tsd_flag := True\<rparr> else st\<lparr>tsd_flag := False\<rparr>)"

text \<open>\<open>prev_bus_state\<close> is the function-local static; the early return for an inactive
  mode leaves it as it is.\<close>

definition fault_detector_check_cbf ::
  "Statics \<Rightarrow> FaultState \<Rightarrow> BusState \<Rightarrow> OperatingMode \<Rightarrow> Statics \<times> FaultState" where
  "fault_detector_check_cbf g st bus_state m =
     (if m \<noteq> MODE_NORMAL \<and> m \<noteq> MODE_SILENT then (g, st\<lparr>cbf_transition_count := 0\<rparr>)
      else
       (let st1 = (if prev_bus_state g = BUS_STATE_DOMINANT \<and> bus_state = BUS_STATE_RECESSIVE
                   then (let st' = st\<lparr>cbf_transition_count := cbf_transition_count st + 1\<rparr>
                         in if cbf_transition_count st' \<ge> 4
                            then st'\<lparr>cbf_flag := True\<rparr> else st')
                   else st)
        in (g\<lparr>prev_bus_state := bus_state\<rparr>, st1)))"

definition fault_detector_update ::
  "Statics \<Rightarrow> FaultState \<Rightarrow> bool \<Rightarrow> bool \<Rightarrow> BusState \<Rightarrow> real \<Rightarrow> u64 \<Rightarrow> OperatingMode
     \<Rightarrow> Statics \<times> FaultState" where
  "fault_detector_update g st txd_low rxd_low bus_state tj current_time m =
     (let st1 = fault_detector_check_txddto st txd_low current_time;
          st2 = fault_detector_check_txdrxd st1 txd_low rxd_low current_time;
          st3 = fault_detector_check_candom st2 bus_state current_time;
          st4 = fault_detector_check_tsd st3 tj
      in fault_detector_check_cbf g st4 bus_state m)"

definition fault_detector_has_any_fault :: "FaultState \<Rightarrow> bool" where
  "fault_detector_has_any_fault st =
     (txdclp_flag st \<or> txddto_flag st \<or> txdrxd_flag st \<or> candom_flag st \<or> tsd_flag st
      \<or> cbf_flag st)"

definition fault_detector_get_nfault_state :: "FaultState \<Rightarrow> bool" where
  "fault_detector_get_nfault_state st = fault_detector_has_any_fault st"

definition fault_detector_should_disable_driver :: "FaultState \<Rightarrow> bool" where
  "fault_detector_should_disable_driver st =
     (txdclp_flag st \<or> txddto_flag st \<or> txdrxd_flag st \<or> tsd_flag st)"

section \<open>Wake handler (wake\_handler.c)\<close>

text \<open>\<open>US_TO_NS(TWK_FILTER_MIN_US)\<close> is 500 and \<open>MS_TO_NS(TWK_TIMEOUT_MAX_MS)\<close> is 2000000.\<close>

definition WUP_FILTER_TIME_NS :: u64 where "WUP_FILTER_TIME_NS = 500"
definition WUP_TIMEOUT_NS :: u64 where "WUP_TIMEOUT_NS = 2000000"

definition wake_handler_init :: WakeState where
  "wake_handler_init =
     \<lparr>wakerq_flag = False, wakesr_flag = False, wake_source_local = False,
      wup_state = WUP_STATE_IDLE, wup_phase_start = UINT64_MAX,
      wup_timeout_start = UINT64_MAX, wake_pin_prev_state = False\<rparr>"

text \<open>The three assignments that put the pattern machine back to idle.\<close>

definition wup_reset :: "WakeState \<Rightarrow> WakeState" where
  "wup_reset st = st\<lparr>wup_state := WUP_STATE_IDLE, wup_phase_start := UINT64_MAX,
                     wup_timeout_start := UINT64_MAX\<rparr>"

definition wake_handler_process_wup :: "WakeState \<Rightarrow> BusState \<Rightarrow> u64 \<Rightarrow> WakeState" where
  "wake_handler_process_wup st bus_state current_time =
     (if wup_timeout_start st \<noteq> UINT64_MAX \<and> wup_state st \<noteq> WUP_STATE_IDLE
         \<and> wup_state st \<noteq> WUP_STATE_COMPLETE
         \<and> current_time - wup_timeout_start st \<ge> WUP_TIMEOUT_NS
      then wup_reset st
      else case wup_state st of
        WUP_STATE_IDLE \<Rightarrow>
          (if bus_state = BUS_STATE_DOMINANT
           then st\<lparr>wup_state := WUP_STATE_FIRST_DOMINANT, wup_phase_start := current_time,
                   wup_timeout_start := current_time\<rparr>
           else st)
      | WUP_STATE_FIRST_DOMINANT \<Rightarrow>
          (if bus_state = BUS_STATE_DOMINANT then
             (if current_time - wup_phase_start st \<ge> WUP_FILTER_TIME_NS
              then st\<lparr>wup_state := WUP_STATE_RECESSIVE, wup_phase_start := current_time\<rparr>
              else st)
           else wup_reset st)
      | WUP_STATE_RECESSIVE \<Rightarrow>
          (if bus_state = BUS_STATE_RECESSIVE then
             (if current_time - wup_phase_start st \<ge> WUP_FILTER_TIME_NS
              then st\<lparr>wup_state := WUP_STATE_SECOND_DOMINANT, wup_phase_start := current_time\<rparr>
              else st)
           else if bus_state = BUS_STATE_DOMINANT then
             (if current_time - wup_phase_start st \<ge> WUP_FILTER_TIME_NS
              then st\<lparr>wup_state := WUP_STATE_SECOND_DOMINANT, wup_phase_start := current_time\<rparr>
              else wup_reset st)
           else st)
      | WUP_STATE_SECOND_DOMINANT \<Rightarrow>
          (if bus_state = BUS_STATE_DOMINANT then
             (if current_time - wup_phase_start st \<ge> WUP_FILTER_TIME_NS
              then st\<lparr>wakerq_flag := True, wakesr_flag := True, wake_source_local := False,
                      wup_state := WUP_STATE_COMPLETE, wup_phase_start := UINT64_MAX,
                      wup_timeout_start := UINT64_MAX\<rparr>
              else st)
           else wup_reset st)
      | WUP_STATE_COMPLETE \<Rightarrow> st)"

definition wake_handler_process_lwu :: "WakeState \<Rightarrow> bool \<Rightarrow> u64 \<Rightarrow> WakeState" where
  "wake_handler_process_lwu st wake_pin_high current_time =
     (let edge_detected = (wake_pin_high \<noteq> wake_pin_prev_state st)
      in if edge_detected
         then wup_reset (st\<lparr>wakerq_flag := True, wakesr_flag := True,
                            wake_source_local := True\<rparr>)
         else st)"

definition wake_handler_update ::
  "WakeState \<Rightarrow> BusState \<Rightarrow> bool \<Rightarrow> OperatingMode \<Rightarrow> u64 \<Rightarrow> WakeState" where
  "wake_handler_update st bus_state wake_pin_high m current_time =
     (let st1 =
        (if m = MODE_STANDBY \<or> m = MODE_SLEEP then
           (let st' = wake_handler_process_wup st bus_state current_time
            in if m = MODE_SLEEP then wake_handler_process_lwu st' wake_pin_high current_time
               else st')
         else if wup_state st \<noteq> WUP_STATE_IDLE then wup_reset st
         else st)
      in st1\<lparr>wake_pin_prev_state := wake_pin_high\<rparr>)"

definition wake_handler_clear_flags :: "WakeState \<Rightarrow> WakeState" where
  "wake_handler_clear_flags st = wup_reset (st\<lparr>wakerq_flag := False\<rparr>)"

definition wake_handler_get_wakerq :: "WakeState \<Rightarrow> bool" where
  "wake_handler_get_wakerq st = wakerq_flag st"

section \<open>Inhibit controller (inh\_controller.c)\<close>

text \<open>\<open>TINH_SLP_STB_NS\<close> is \<open>100 * 1000ULL\<close>.\<close>

definition TINH_SLP_STB_NS :: u64 where "TINH_SLP_STB_NS = 100000"

definition inh_controller_init :: INHController where
  "inh_controller_init =
     \<lparr>inh_enabled = True, inh_output_high = False, wake_event_time = 0,
      pending_inh_assertion = False\<rparr>"

definition inh_controller_update ::
  "INHController \<Rightarrow> OperatingMode \<Rightarrow> bool \<Rightarrow> bool \<Rightarrow> u64 \<Rightarrow> INHController" where
  "inh_controller_update c m inh_mask_high wake_event current_time =
     (let c1 = c\<lparr>inh_enabled := \<not> inh_mask_high\<rparr>
      in if \<not> inh_enabled c1
         then c1\<lparr>inh_output_high := False, pending_inh_assertion := False\<rparr>
         else
          (let c2 = (if wake_event
                     then c1\<lparr>wake_event_time := current_time, pending_inh_assertion := True\<rparr>
                     else c1);
               c3 = (if pending_inh_assertion c2
                        \<and> current_time - wake_event_time c2 \<ge> TINH_SLP_STB_NS
                     then c2\<lparr>pending_inh_assertion := False\<rparr> else c2);
               should_be_high = (case m of
                   MODE_NORMAL \<Rightarrow> True | MODE_SILENT \<Rightarrow> True | MODE_STANDBY \<Rightarrow> True
                 | MODE_SLEEP \<Rightarrow> False | MODE_GO_TO_SLEEP \<Rightarrow> False | MODE_OFF \<Rightarrow> False)
           in if should_be_high \<and> pending_inh_assertion c3
              then c3\<lparr>inh_output_high := False\<rparr>
              else c3\<lparr>inh_output_high := should_be_high\<rparr>))"

definition inh_controller_get_pin_state :: "INHController \<Rightarrow> PinState \<times> real" where
  "inh_controller_get_pin_state c =
     (if \<not> inh_enabled c \<or> \<not> inh_output_high c then (PIN_STATE_HIGH_IMPEDANCE, 0)
      else (PIN_STATE_HIGH, 5 - 75 / 100))"

section \<open>Simulation kernel (tcan1463q1\_simulator.c)\<close>

text \<open>\<open>pin_set_value(&pins[p], st, v)\<close> with the returned flag dropped, as the step
  function calls it.\<close>

definition pins_set_value ::
  "(PinType \<Rightarrow> Pin) \<Rightarrow> PinType \<Rightarrow> PinState \<Rightarrow> real \<Rightarrow> (PinType \<Rightarrow> Pin)" where
  "pins_set_value ps p st v = ps(p := snd (pin_set_value (ps p) st v))"

definition default_timing_params :: TimingParameters where
  "default_timing_params =
     \<lparr>tuv_ms = (100 + 350) / 2, ttxddto_ms = (12 / 10 + 38 / 10) / 2,
      tbusdom_ms = (14 / 10 + 38 / 10) / 2, twk_filter_us = (5 / 10 + 18 / 10) / 2,
      twk_timeout_ms = (8 / 10 + 2) / 2, tsilence_s = (6 / 10 + 12 / 10) / 2\<rparr>"

text \<open>
  \<open>tcan1463q1_simulator_reset\<close>: everything is overwritten except the INH controller
  pointer and the callback lists; the pointed-to controller is re-initialised when the
  pointer is not null.
\<close>

definition tcan1463q1_simulator_reset ::
  "Statics \<Rightarrow> TCAN1463Q1Simulator \<Rightarrow> Statics \<times> TCAN1463Q1Simulator" where
  "tcan1463q1_simulator_reset g sim =
     (let ci = can_transceiver_init g
      in (fst ci,
          \<lparr>pins = pin_manager_init,
           mode_state = mode_controller_init\<lparr>current_mode := MODE_OFF, previous_mode := MODE_OFF\<rparr>,
           can_xcvr = snd ci,
           power_state = power_monitor_init,
           fault_state = fault_detector_init,
           wake_state = wake_handler_init,
           bus_bias = bus_bias_controller_init,
           inh_controller_ptr = map_option (\<lambda>c. inh_controller_init) (inh_controller_ptr sim),
           timing = timing_engine_init,
           tj_temperature = 25,
           rl_resistance = 60,
           cl_capacitance = 100 / 10 ^ 12,
           timing_params = default_timing_params,
           callbacks = callbacks sim\<rparr>))"

text \<open>
  \<open>tcan1463q1_simulator_create\<close> with both allocations succeeding: a zeroed structure
  with a fresh INH controller and no callbacks, then reset.  Reset overwrites every other
  member, so the zeroed members are written here as reset leaves them.
\<close>

definition tcan1463q1_simulator_create :: "Statics \<Rightarrow> Statics \<times> TCAN1463Q1Simulator" where
  "tcan1463q1_simulator_create g =
     (let r = tcan1463q1_simulator_reset g
                \<lparr>pins = pin_manager_init, mode_state = mode_controller_init,
                 can_xcvr = snd (can_transceiver_init g),
                 power_state = power_monitor_init, fault_state = fault_detector_init,
                 wake_state = wake_handler_init, bus_bias = bus_bias_controller_init,
                 inh_controller_ptr = Some inh_controller_init, timing = timing_engine_init,
                 tj_temperature = 0, rl_resistance = 0, cl_capacitance = 0,
                 timing_params = default_timing_params, callbacks = (\<lambda>e. [])\<rparr>
      in r)"

definition tcan1463q1_simulator_set_pin ::
  "TCAN1463Q1Simulator \<Rightarrow> int \<Rightarrow> PinState \<Rightarrow> real \<Rightarrow> bool \<times> TCAN1463Q1Simulator" where
  "tcan1463q1_simulator_set_pin sim pin st v =
     (if pin < 0 \<or> pin \<ge> 14 then (False, sim)
      else case pin_of_index pin of
        None \<Rightarrow> (False, sim)
      | Some p \<Rightarrow> (fst (pin_set_value (pins sim p) st v),
                   sim\<lparr>pins := (pins sim)(p := snd (pin_set_value (pins sim p) st v))\<rparr>))"

definition tcan1463q1_simulator_get_pin ::
  "TCAN1463Q1Simulator \<Rightarrow> int \<Rightarrow> (PinState \<times> real) option" where
  "tcan1463q1_simulator_get_pin sim pin =
     (if pin < 0 \<or> pin \<ge> 14 then None
      else map_option (\<lambda>p. pin_get_value (pins sim p)) (pin_of_index pin))"

definition tcan1463q1_simulator_get_mode :: "TCAN1463Q1Simulator \<Rightarrow> OperatingMode" where
  "tcan1463q1_simulator_get_mode sim = current_mode (mode_state sim)"

text \<open>\<open>tcan1463q1_simulator_get_flags\<close>, in the order of its twelve out-parameters:
  pwron, wakerq, wakesr, uvsup, uvcc, uvio, cbf, txdclp, txddto, txdrxd, candom, tsd.\<close>

definition tcan1463q1_simulator_get_flags :: "TCAN1463Q1Simulator \<Rightarrow> bool list" where
  "tcan1463q1_simulator_get_flags sim =
     [pwron_flag (power_state sim), wakerq_flag (wake_state sim), wakesr_flag (wake_state sim),
      uvsup_flag (power_state sim), uvcc_flag (power_state sim), uvio_flag (power_state sim),
      cbf_flag (fault_state sim), txdclp_flag (fault_state sim), txddto_flag (fault_state sim),
      txdrxd_flag (fault_state sim), candom_flag (fault_state sim), tsd_flag (fault_state sim)]"

text \<open>The block ``STEP 1: DRIVE BUS'' of the step function: the bus pins and the
  transceiver after it.\<close>

definition step_drive_bus ::
  "(PinType \<Rightarrow> Pin) \<Rightarrow> CANTransceiver \<Rightarrow> FaultState \<Rightarrow> BusBiasController \<Rightarrow> bool \<Rightarrow> real
     \<Rightarrow> (PinType \<Rightarrow> Pin) \<times> CANTransceiver" where
  "step_drive_bus ps tr fs bb txd_low vcc_v =
     (if driver_enabled tr \<and> \<not> fault_detector_should_disable_driver fs then
        (let d = can_transceiver_drive_bus tr txd_low;
             ps1 = pins_set_value ps PIN_CANH PIN_STATE_ANALOG (fst (snd d));
             ps2 = pins_set_value ps1 PIN_CANL PIN_STATE_ANALOG (snd (snd d))
         in (ps2, fst d))
      else
        (let b = bus_bias_controller_get_bias bb vcc_v
         in if bias_state bb \<noteq> BIAS_STATE_OFF then
              (pins_set_value (pins_set_value ps PIN_CANH PIN_STATE_ANALOG (fst b))
                 PIN_CANL PIN_STATE_ANALOG (snd b), tr)
            else
              (pins_set_value (pins_set_value ps PIN_CANH PIN_STATE_HIGH_IMPEDANCE 0)
                 PIN_CANL PIN_STATE_HIGH_IMPEDANCE 0, tr)))"

text \<open>The block ``Update output pins'': RXD, nFAULT and INH.\<close>

definition step_write_outputs ::
  "(PinType \<Rightarrow> Pin) \<Rightarrow> bool \<Rightarrow> bool \<Rightarrow> real \<Rightarrow> INHController option \<Rightarrow> (PinType \<Rightarrow> Pin)" where
  "step_write_outputs ps rxd_high nfault_low vio_v inh =
     (let ps1 = pins_set_value ps PIN_RXD
                  (if rxd_high then PIN_STATE_HIGH else PIN_STATE_LOW)
                  (if rxd_high then vio_v else 0);
          ps2 = pins_set_value ps1 PIN_NFAULT
                  (if nfault_low then PIN_STATE_LOW else PIN_STATE_HIGH)
                  (if nfault_low then 0 else vio_v)
      in case inh of
           None \<Rightarrow> ps2
         | Some c \<Rightarrow> pins_set_value ps2 PIN_INH (fst (inh_controller_get_pin_state c))
                       (snd (inh_controller_get_pin_state c)))"

text \<open>The wake-request flag as the step function samples it: after the wake handler
  update, before the mode controller runs.\<close>

definition step_wake_state :: "TCAN1463Q1Simulator \<Rightarrow> u64 \<Rightarrow> WakeState" where
  "step_wake_state sim delta_ns =
     wake_handler_update (wake_state sim)
       (can_transceiver_get_bus_state
          (snd (pin_get_value (pins sim PIN_CANH)) - snd (pin_get_value (pins sim PIN_CANL))))
       (fst (pin_get_value (pins sim PIN_WAKE)) = PIN_STATE_HIGH)
       (current_mode (mode_state sim))
       (timing_engine_get_time (timing_engine_advance (timing sim) delta_ns))"

definition tcan1463q1_simulator_step ::
  "Statics \<Rightarrow> TCAN1463Q1Simulator \<Rightarrow> u64 \<Rightarrow> Statics \<times> TCAN1463Q1Simulator" where
  "tcan1463q1_simulator_step g sim delta_ns =
     (let time_before_step = timing_engine_get_time (timing sim);
          tm = timing_engine_advance (timing sim) delta_ns;
          current_time = timing_engine_get_time tm;
          txd_low = (fst (pin_get_value (pins sim PIN_TXD)) = PIN_STATE_LOW);
          en_high = (fst (pin_get_value (pins sim PIN_EN)) = PIN_STATE_HIGH);
          nstb_high = (fst (pin_get_value (pins sim PIN_NSTB)) = PIN_STATE_HIGH);
          inh_mask_high = (fst (pin_get_value (pins sim PIN_INH_MASK)) = PIN_STATE_HIGH);
          vsup_v = snd (pin_get_value (pins sim PIN_VSUP));
          vcc_v = snd (pin_get_value (pins sim PIN_VCC));
          vio_v = snd (pin_get_value (pins sim PIN_VIO));
          pw = power_monitor_update (power_state sim) vsup_v vcc_v vio_v current_time;
          vsup_valid = power_monitor_is_vsup_valid pw;
          canh_voltage_prev = snd (pin_get_value (pins sim PIN_CANH));
          canl_voltage_prev = snd (pin_get_value (pins sim PIN_CANL));
          bus_state_prev = can_transceiver_get_bus_state (canh_voltage_prev - canl_voltage_prev);
          wk = step_wake_state sim delta_ns;
          wakerq = wake_handler_get_wakerq wk;
          old_mode = current_mode (mode_state sim);
          mu = mode_controller_update (mode_state sim) en_high nstb_high vsup_valid wakerq
                 current_time;
          new_mode = fst mu;
          entering = (new_mode = MODE_NORMAL \<and> old_mode \<noteq> MODE_NORMAL);
          pw1 = (if entering then power_monitor_clear_pwron_flag pw else pw);
          wk1 = (if entering then wake_handler_clear_flags wk else wk);
          cu = can_transceiver_update g (can_xcvr sim) new_mode txd_low
                 canh_voltage_prev canl_voltage_prev current_time;
          cs = can_transceiver_update_state_machine (fst cu) (snd cu) new_mode bus_state_prev
                 vsup_valid current_time;
          bb = bus_bias_controller_update (bus_bias sim) (xcvr_state (snd cs)) bus_state_prev
                 current_time;
          fs = (if entering then fault_detector_check_txdclp (fault_state sim) txd_low new_mode
                else fault_state sim);
          inh = map_option (\<lambda>c. inh_controller_update c new_mode inh_mask_high wakerq
                                  current_time) (inh_controller_ptr sim);
          dr = step_drive_bus (pins sim) (snd cs) fs bb txd_low vcc_v;
          canh_voltage = snd (pin_get_value (fst dr PIN_CANH));
          canl_voltage = snd (pin_get_value (fst dr PIN_CANL));
          bus_state = can_transceiver_get_bus_state (canh_voltage - canl_voltage);
          ct = can_transceiver_update_rxd (snd dr) bus_state current_time time_before_step;
          rxd_high = rxd_output ct;
          fu = fault_detector_update (fst cs) fs txd_low (\<not> rxd_high) bus_state
                 (tj_temperature sim) current_time new_mode;
          nfault_low = (fault_detector_get_nfault_state (snd fu) \<or> wakerq);
          ps = step_write_outputs (fst dr) rxd_high nfault_low vio_v inh
      in (fst fu,
          sim\<lparr>pins := ps, mode_state := snd mu, can_xcvr := ct, power_state := pw1,
              fault_state := snd fu, wake_state := wk1, bus_bias := bb,
              inh_controller_ptr := inh, timing := tm\<rparr>))"

text \<open>
  Snapshot and restore.  The snapshot is a size-tagged buffer holding a copy of the
  whole structure; \<open>struct_size\<close> stands for \<open>sizeof(TCAN1463Q1Simulator)\<close>, a constant of
  the platform.  The buffer is \<open>None\<close> for a null \<open>data\<close> pointer.  Both allocations of
  \<open>tcan1463q1_simulator_snapshot\<close> are arguments: \<open>None\<close> is returned when one fails.
\<close>

record SimulatorSnapshot =
  snap_data :: "TCAN1463Q1Simulator option"
  snap_size :: nat

definition tcan1463q1_simulator_snapshot ::
  "nat \<Rightarrow> bool \<Rightarrow> bool \<Rightarrow> TCAN1463Q1Simulator \<Rightarrow> SimulatorSnapshot option" where
  "tcan1463q1_simulator_snapshot struct_size malloc1_ok malloc2_ok sim =
     (if \<not> malloc1_ok then None
      else if \<not> malloc2_ok then None
      else Some \<lparr>snap_data = Some sim, snap_size = struct_size\<rparr>)"

definition tcan1463q1_simulator_restore ::
  "nat \<Rightarrow> TCAN1463Q1Simulator \<Rightarrow> SimulatorSnapshot option \<Rightarrow> bool \<times> TCAN1463Q1Simulator" where
  "tcan1463q1_simulator_restore struct_size sim snapshot =
     (case snapshot of
        None \<Rightarrow> (False, sim)
      | Some sn \<Rightarrow>
         (case snap_data sn of
            None \<Rightarrow> (False, sim)
          | Some d \<Rightarrow>
             (if snap_size sn \<noteq> struct_size then (False, sim)
              else (True, d\<lparr>inh_controller_ptr := inh_controller_ptr sim\<rparr>))))"

section \<open>Runs and scenarios\<close>

text \<open>The inputs of one mode-controller update: enable high, standby-control high,
  supply valid, wake request set, current time.\<close>

type_synonym mode_input = "bool \<times> bool \<times> bool \<times> bool \<times> u64"

definition mode_step :: "ModeState \<Rightarrow> mode_input \<Rightarrow> ModeState" where
  "mode_step st i =
     (case i of (en_high, nstb_high, vsup_valid, wakerq_set, current_time) \<Rightarrow>
        snd (mode_controller_update st en_high nstb_high vsup_valid wakerq_set current_time))"

text \<open>The modes a sequence of updates goes through, the starting mode first.\<close>

fun mode_trace :: "ModeState \<Rightarrow> mode_input list \<Rightarrow> OperatingMode list" where
  "mode_trace st [] = [current_mode st]"
| "mode_trace st (i # is) = current_mode st # mode_trace (mode_step st i) is"

text \<open>
  What the write of the nFAULT pin relies on: the static ranges of nFAULT and VIO are
  those of the table, and the VIO pin holds 0 or a voltage of its range.  It holds after
  creation and reset and is kept by every pin set and every step.
\<close>

definition vio_domain_ok :: "(PinType \<Rightarrow> Pin) \<Rightarrow> bool" where
  "vio_domain_ok ps =
     (min_voltage (ps PIN_NFAULT) = 0 \<and> max_voltage (ps PIN_NFAULT) = 55 / 10
      \<and> min_voltage (ps PIN_VIO) = 165 / 100 \<and> max_voltage (ps PIN_VIO) = 55 / 10
      \<and> (voltage (ps PIN_VIO) = 0
          \<or> (165 / 100 \<le> voltage (ps PIN_VIO) \<and> voltage (ps PIN_VIO) \<le> 55 / 10)))"

text \<open>A program driving one instance: the statics and the instance, threaded through
  its calls.\<close>

definition set_pin_on ::
  "Statics \<times> TCAN1463Q1Simulator \<Rightarrow> PinType \<Rightarrow> PinState \<Rightarrow> real
     \<Rightarrow> Statics \<times> TCAN1463Q1Simulator" where
  "set_pin_on gs p st v =
     (fst gs, snd (tcan1463q1_simulator_set_pin (snd gs) (pin_index p) st v))"

definition step_on ::
  "Statics \<times> TCAN1463Q1Simulator \<Rightarrow> u64 \<Rightarrow> Statics \<times> TCAN1463Q1Simulator" where
  "step_on gs d = tcan1463q1_simulator_step (fst gs) (snd gs) d"

text \<open>A fresh instance with EN and nSTB driven high.\<close>

definition scenario_powered :: "Statics \<times> TCAN1463Q1Simulator" where
  "scenario_powered =
     set_pin_on (set_pin_on (tcan1463q1_simulator_create statics_at_load)
        PIN_EN PIN_STATE_HIGH (33 / 10)) PIN_NSTB PIN_STATE_HIGH (33 / 10)"

text \<open>The same after one step of 1 us: Normal mode, driver enabled, bus recessive.\<close>

definition scenario_normal :: "Statics \<times> TCAN1463Q1Simulator" where
  "scenario_normal = step_on scenario_powered 1000"

text \<open>From Normal: nSTB low, one step (Go-to-Sleep), 700 ms (Sleep), then the WAKE pin
  is toggled.  The next step sees the edge.\<close>

definition scenario_wake_input :: "Statics \<times> TCAN1463Q1Simulator" where
  "scenario_wake_input =
     set_pin_on (step_on (step_on (set_pin_on scenario_normal PIN_NSTB PIN_STATE_LOW 0) 1000)
        700000000) PIN_WAKE PIN_STATE_HIGH (33 / 10)"

text \<open>The step that sees the edge (Standby, wake request set), then nSTB high again.  The
  next step enters Normal.\<close>

definition scenario_standby :: "Statics \<times> TCAN1463Q1Simulator" where
  "scenario_standby =
     set_pin_on (step_on scenario_wake_input 1000) PIN_NSTB PIN_STATE_HIGH (33 / 10)"

text \<open>From Normal (time 1000 ns): TXD is pulled low.\<close>

definition scenario_txd_low :: "Statics \<times> TCAN1463Q1Simulator" where
  "scenario_txd_low = set_pin_on scenario_normal PIN_TXD PIN_STATE_LOW 0"

text \<open>A dominant pulse of 50 ns: one step of 50 ns with TXD low, then TXD high again
  (time 1050 ns).\<close>

definition scenario_pulse :: "Statics \<times> TCAN1463Q1Simulator" where
  "scenario_pulse =
     set_pin_on (step_on scenario_txd_low 50) PIN_TXD PIN_STATE_HIGH (33 / 10)"

text \<open>The bus classification read from the bus pins of an instance, as the step
  function reads it.\<close>

definition bus_reading :: "TCAN1463Q1Simulator \<Rightarrow> BusState" where
  "bus_reading s =
     can_transceiver_get_bus_state
       (snd (pin_get_value (pins s PIN_CANH)) - snd (pin_get_value (pins s PIN_CANL)))"

text \<open>Two instances in one process: the statics, the first and the second instance.\<close>

type_synonym world = "Statics \<times> TCAN1463Q1Simulator \<times> TCAN1463Q1Simulator"

definition step_first :: "world \<Rightarrow> u64 \<Rightarrow> world" where
  "step_first w d =
     (let r = tcan1463q1_simulator_step (fst w) (fst (snd w)) d
      in (fst r, snd r, snd (snd w)))"

definition step_second :: "world \<Rightarrow> u64 \<Rightarrow> world" where
  "step_second w d =
     (let r = tcan1463q1_simulator_step (fst w) (snd (snd w)) d
      in (fst r, fst (snd w), snd r))"

definition set_pin_first :: "world \<Rightarrow> PinType \<Rightarrow> PinState \<Rightarrow> real \<Rightarrow> world" where
  "set_pin_first w p st v =
     (fst w, snd (tcan1463q1_simulator_set_pin (fst (snd w)) (pin_index p) st v), snd (snd w))"

definition set_pin_second :: "world \<Rightarrow> PinType \<Rightarrow> PinState \<Rightarrow> real \<Rightarrow> world" where
  "set_pin_second w p st v =
     (fst w, fst (snd w), snd (tcan1463q1_simulator_set_pin (snd (snd w)) (pin_index p) st v))"

text \<open>Both instances created one after the other, EN and nSTB high on both.\<close>

definition world_powered :: world where
  "world_powered =
     (let ra = tcan1463q1_simulator_create statics_at_load;
          rb = tcan1463q1_simulator_create (fst ra);
          w = (fst rb, snd ra, snd rb);
          w1 = set_pin_first (set_pin_first w PIN_EN PIN_STATE_HIGH (33 / 10))
                 PIN_NSTB PIN_STATE_HIGH (33 / 10)
      in set_pin_second (set_pin_second w1 PIN_EN PIN_STATE_HIGH (33 / 10))
           PIN_NSTB PIN_STATE_HIGH (33 / 10))"

text \<open>
  The first instance is stepped five times by 1 us with TXD high throughout.  In
  \<open>world_first_alone\<close> nothing else happens.  In \<open>world_interleaved\<close> the second instance
  is brought to Normal as well, gets TXD low, and is stepped before each of the last four
  steps of the first.  The calls made on the first instance are the same in both.
\<close>

definition world_first_alone :: world where
  "world_first_alone =
     step_first (step_first (step_first (step_first (step_first world_powered 1000) 1000)
       1000) 1000) 1000"

definition world_interleaved :: world where
  "world_interleaved =
     (let w1 = step_second (step_first world_powered 1000) 1000;
          w2 = set_pin_second w1 PIN_TXD PIN_STATE_LOW 0;
          w3 = step_first (step_second w2 1000) 1000;
          w4 = step_first (step_second w3 1000) 1000;
          w5 = step_first (step_second w4 1000) 1000
      in step_first (step_second w5 1000) 1000)"

section \<open>Unfolding the model on concrete inputs\<close>

lemmas component_defs =
  UINT64_MAX_def statics_at_load_def pin_voltage_ranges_def pin_directions_def pin_init_def
  pin_validate_voltage_def pin_set_value_def pin_get_value_def pin_manager_init_def
  pin_of_index_def pin_index_def pin_manager_set_pin_def pin_manager_get_pin_def
  timing_engine_init_def timing_engine_advance_def timing_engine_get_time_def
  TUV_MIN_NS_def UVSUP_FALLING_MIN_def UVSUP_RISING_MIN_def UVCC_FALLING_MAX_def
  UVCC_RISING_MIN_def UVIO_FALLING_MAX_def UVIO_RISING_MIN_def power_monitor_init_def
  power_monitor_vsup_block_def power_monitor_vcc_block_def power_monitor_vio_block_def
  power_monitor_update_def power_monitor_is_vsup_valid_def power_monitor_clear_pwron_flag_def
  MODE_TSILENCE_NS_def valid_transitions_def mode_controller_init_def
  mode_controller_can_transition_def determine_target_mode_def mode_controller_update_def
  VDIFF_DOMINANT_THRESHOLD_def VDIFF_RECESSIVE_THRESHOLD_def CANH_DOMINANT_VOLTAGE_def
  CANL_DOMINANT_VOLTAGE_def CANH_RECESSIVE_VOLTAGE_def CANL_RECESSIVE_VOLTAGE_def
  XCVR_TSILENCE_NS_def TPROP_LOOP1_MIN_NS_def TPROP_LOOP1_MAX_NS_def TPROP_LOOP2_MIN_NS_def
  TPROP_LOOP2_MAX_NS_def can_transceiver_init_def can_transceiver_get_bus_state_def
  can_transceiver_drive_bus_def prop_delay_def can_transceiver_update_rxd_def xcvr_enables_def
  can_transceiver_update_state_machine_def can_transceiver_update_def
  bus_bias_controller_init_def bus_bias_controller_update_def bus_bias_controller_get_bias_def
  TTXDDTO_MIN_NS_def TBUSDOM_MIN_NS_def TSDR_CELSIUS_def fault_detector_init_def
  fault_detector_check_txdclp_def fault_detector_check_txddto_def
  fault_detector_check_txdrxd_def fault_detector_check_candom_def fault_detector_check_tsd_def
  fault_detector_check_cbf_def fault_detector_update_def fault_detector_has_any_fault_def
  fault_detector_get_nfault_state_def fault_detector_should_disable_driver_def
  WUP_FILTER_TIME_NS_def WUP_TIMEOUT_NS_def wake_handler_init_def wup_reset_def
  wake_handler_process_wup_def wake_handler_process_lwu_def wake_handler_update_def
  wake_handler_clear_flags_def wake_handler_get_wakerq_def TINH_SLP_STB_NS_def
  inh_controller_init_def inh_controller_update_def inh_controller_get_pin_state_def

lemmas kernel_defs =
  pins_set_value_def default_timing_params_def tcan1463q1_simulator_reset_def
  tcan1463q1_simulator_create_def tcan1463q1_simulator_set_pin_def
  tcan1463q1_simulator_get_pin_def tcan1463q1_simulator_get_mode_def
  tcan1463q1_simulator_get_flags_def step_drive_bus_def step_write_outputs_def
  step_wake_state_def tcan1463q1_simulator_step_def

lemmas scenario_defs =
  set_pin_on_def step_on_def scenario_powered_def scenario_normal_def
  scenario_wake_input_def scenario_standby_def scenario_txd_low_def scenario_pulse_def
  bus_reading_def step_first_def step_second_def
  set_pin_first_def set_pin_second_def world_powered_def world_first_alone_def
  world_interleaved_def

section \<open>Pin store: validation\<close>

lemma pin_of_index_pin_index: "pin_of_index (pin_index p) = Some p"
  by (cases p) (simp_all add: pin_of_index_def pin_index_def)

lemma pin_index_range: "0 \<le> pin_index p \<and> pin_index p < 14"
  by (cases p) (simp_all add: pin_index_def)

lemma pin_manager_init_VSUP:
  "pin_manager_init PIN_VSUP =
     \<lparr>pin_state = PIN_STATE_ANALOG, voltage = 12, is_input = True, is_output = False,
      min_voltage = 45 / 10, max_voltage = 42\<rparr>"
  by (simp add: pin_manager_init_def Let_def pin_init_def pin_voltage_ranges_def
      pin_directions_def)

text \<open>
  C10.  The zero-voltage exemption of \<open>pin_validate_voltage\<close> looks at the state the pin
  holds, never at the state being assigned: voltage 0 is valid whenever the stored state
  is not ANALOG; for a pin stored as ANALOG exactly the range check decides; the state
  argument of \<open>pin_set_value\<close> has no influence on acceptance.  VSUP is stored as ANALOG
  after initialisation with range 4.5 to 42, so setting it to any state with voltage 0 is
  rejected and leaves the pin as it was, through \<open>pin_set_value\<close> and through
  \<open>pin_manager_set_pin\<close> alike.
\<close>

theorem validate_uses_stored_state:
  "(pin_state pin \<noteq> PIN_STATE_ANALOG \<longrightarrow> pin_validate_voltage pin 0)
   \<and> (pin_state pin = PIN_STATE_ANALOG \<longrightarrow>
        pin_validate_voltage pin v = (min_voltage pin \<le> v \<and> v \<le> max_voltage pin))
   \<and> fst (pin_set_value pin st v) = pin_validate_voltage pin v
   \<and> pin_state (pin_manager_init PIN_VSUP) = PIN_STATE_ANALOG
   \<and> min_voltage (pin_manager_init PIN_VSUP) = 45 / 10
   \<and> max_voltage (pin_manager_init PIN_VSUP) = 42
   \<and> pin_set_value (pin_manager_init PIN_VSUP) st 0 = (False, pin_manager_init PIN_VSUP)
   \<and> pin_manager_set_pin pin_manager_init (pin_index PIN_VSUP) st 0
        = (False, pin_manager_init)"
proof -
  have a: "pin_state pin \<noteq> PIN_STATE_ANALOG \<longrightarrow> pin_validate_voltage pin 0"
    by (simp add: pin_validate_voltage_def)
  have b: "pin_state pin = PIN_STATE_ANALOG \<longrightarrow>
        pin_validate_voltage pin v = (min_voltage pin \<le> v \<and> v \<le> max_voltage pin)"
    by (auto simp: pin_validate_voltage_def)
  have c: "fst (pin_set_value pin st v) = pin_validate_voltage pin v"
    by (simp add: pin_set_value_def)
  have d: "pin_set_value (pin_manager_init PIN_VSUP) st 0 = (False, pin_manager_init PIN_VSUP)"
    by (simp add: pin_manager_init_VSUP pin_set_value_def pin_validate_voltage_def)
  have e: "pin_manager_set_pin pin_manager_init (pin_index PIN_VSUP) st 0
        = (False, pin_manager_init)"
    using d by (simp add: pin_manager_set_pin_def pin_index_def pin_of_index_def)
  show ?thesis using a b c d e by (simp add: pin_manager_init_VSUP)
qed

theorem validate_uses_stored_state_witness:
  "pin_state (pin_manager_init PIN_VSUP) = PIN_STATE_ANALOG
   \<and> pin_validate_voltage (pin_manager_init PIN_VSUP) 0 = False
   \<and> pin_validate_voltage (pin_manager_init PIN_VSUP) 12 = True
   \<and> pin_state ((pin_manager_init PIN_VSUP)\<lparr>pin_state := PIN_STATE_LOW\<rparr>) \<noteq> PIN_STATE_ANALOG
   \<and> pin_validate_voltage ((pin_manager_init PIN_VSUP)\<lparr>pin_state := PIN_STATE_LOW\<rparr>) 0
   \<and> pin_set_value (pin_manager_init PIN_VSUP) PIN_STATE_LOW 0
        = (False, pin_manager_init PIN_VSUP)"
  using validate_uses_stored_state [of "pin_manager_init PIN_VSUP" 0 PIN_STATE_LOW]
    validate_uses_stored_state [of "pin_manager_init PIN_VSUP" 12 PIN_STATE_LOW]
    validate_uses_stored_state
      [of "(pin_manager_init PIN_VSUP)\<lparr>pin_state := PIN_STATE_LOW\<rparr>" 0 PIN_STATE_LOW]
  by (simp add: pin_manager_init_VSUP)

section \<open>Mode controller: transitions follow the table\<close>

lemma table_lookup_set: "table_lookup ts a b \<longleftrightarrow> (a, b) \<in> set ts"
  by (induction ts) auto

lemma can_transition_table:
  "mode_controller_can_transition a b \<longleftrightarrow> a = b \<or> (a, b) \<in> set valid_transitions"
  by (simp add: mode_controller_can_transition_def table_lookup_set)

lemma mode_update_cases:
  "snd (mode_controller_update st e n v w t) = st
   \<or> (current_mode st \<noteq> current_mode (snd (mode_controller_update st e n v w t))
      \<and> (current_mode st, current_mode (snd (mode_controller_update st e n v w t)))
            \<in> set valid_transitions)"
  by (simp add: mode_controller_update_def Let_def can_transition_table)

lemma mode_step_allowed:
  "current_mode (mode_step st i) = current_mode st
   \<or> (current_mode st, current_mode (mode_step st i)) \<in> set valid_transitions"
proof -
  obtain e n v w t where i: "i = (e, n, v, w, t)" by (cases i) auto
  show ?thesis using mode_update_cases [of st e n v w t]
    by (auto simp: mode_step_def i)
qed

lemma mode_trace_hd: "hd (mode_trace st is) = current_mode st"
  by (cases "is") simp_all

lemma mode_trace_successively:
  "successively (\<lambda>a b. a = b \<or> (a, b) \<in> set valid_transitions) (mode_trace st is)"
proof (induction "is" arbitrary: st)
  case Nil
  show ?case by simp
next
  case (Cons i "is")
  have ne: "mode_trace (mode_step st i) is \<noteq> []" by (cases "is") simp_all
  have h: "hd (mode_trace (mode_step st i) is) = current_mode (mode_step st i)"
    by (rule mode_trace_hd)
  from ne obtain m ms where ms: "mode_trace (mode_step st i) is = m # ms"
    by (cases "mode_trace (mode_step st i) is") auto
  with h have m: "m = current_mode (mode_step st i)" by simp
  have "successively (\<lambda>a b. a = b \<or> (a, b) \<in> set valid_transitions) (m # ms)"
    using Cons.IH [of "mode_step st i"] ms by simp
  moreover have "current_mode st = m \<or> (current_mode st, m) \<in> set valid_transitions"
    using mode_step_allowed [of st i] m by auto
  ultimately show ?case using ms by simp
qed

text \<open>
  C3.  One update of the mode controller either leaves the whole mode state unchanged
  or commits a change of mode whose (from, to) pair is in \<open>valid_transitions\<close>; so a
  pair of different modes absent from the table is never the (before, after) pair of an
  update.  When the target computed by \<open>determine_target_mode\<close> cannot be reached per
  \<open>mode_controller_can_transition\<close>, the state is unchanged.  The call returns the
  current mode.  Along every sequence of updates, from any starting state, each mode is
  followed by itself or by a mode the table allows.
\<close>

theorem mode_transitions_follow_table:
  "(current_mode (snd (mode_controller_update st e n v w t)) \<noteq> current_mode st \<longrightarrow>
      (current_mode st, current_mode (snd (mode_controller_update st e n v w t)))
         \<in> set valid_transitions)
   \<and> (a \<noteq> b \<and> (a, b) \<notin> set valid_transitions \<longrightarrow>
        \<not> (current_mode st = a \<and> current_mode (snd (mode_controller_update st e n v w t)) = b))
   \<and> (\<not> mode_controller_can_transition (current_mode st)
          (determine_target_mode (current_mode st) e n v w
             (if t \<ge> mode_entry_time st then t - mode_entry_time st else 0)) \<longrightarrow>
        snd (mode_controller_update st e n v w t) = st)
   \<and> fst (mode_controller_update st e n v w t)
        = current_mode (snd (mode_controller_update st e n v w t))
   \<and> successively (\<lambda>x y. x = y \<or> (x, y) \<in> set valid_transitions) (mode_trace st ins)"
proof -
  have c1: "current_mode (snd (mode_controller_update st e n v w t)) \<noteq> current_mode st \<longrightarrow>
      (current_mode st, current_mode (snd (mode_controller_update st e n v w t)))
         \<in> set valid_transitions"
    using mode_update_cases [of st e n v w t] by auto
  have c2: "a \<noteq> b \<and> (a, b) \<notin> set valid_transitions \<longrightarrow>
        \<not> (current_mode st = a \<and> current_mode (snd (mode_controller_update st e n v w t)) = b)"
    using mode_update_cases [of st e n v w t] by auto
  have c3: "\<not> mode_controller_can_transition (current_mode st)
          (determine_target_mode (current_mode st) e n v w
             (if t \<ge> mode_entry_time st then t - mode_entry_time st else 0)) \<longrightarrow>
        snd (mode_controller_update st e n v w t) = st"
    by (simp add: mode_controller_update_def Let_def)
  have c4: "fst (mode_controller_update st e n v w t)
        = current_mode (snd (mode_controller_update st e n v w t))"
    by (simp add: mode_controller_update_def Let_def)
  show ?thesis using c1 c2 c3 c4 mode_trace_successively [of st ins] by blast
qed

theorem mode_transitions_follow_table_witness:
  "current_mode (snd (mode_controller_update mode_controller_init True True True False 0))
     \<noteq> current_mode mode_controller_init
   \<and> current_mode (snd (mode_controller_update mode_controller_init True True True False 0))
       = MODE_NORMAL
   \<and> (MODE_OFF, MODE_NORMAL) \<in> set valid_transitions
   \<and> MODE_SLEEP \<noteq> MODE_NORMAL \<and> (MODE_SLEEP, MODE_NORMAL) \<notin> set valid_transitions
   \<and> \<not> mode_controller_can_transition MODE_SLEEP
          (determine_target_mode MODE_SLEEP True True True False 0)
   \<and> snd (mode_controller_update (mode_controller_init\<lparr>current_mode := MODE_SLEEP\<rparr>)
            True True True False 0)
       = mode_controller_init\<lparr>current_mode := MODE_SLEEP\<rparr>
   \<and> successively (\<lambda>x y. x = y \<or> (x, y) \<in> set valid_transitions)
         (mode_trace mode_controller_init [(True, True, True, False, 0)])"
proof -
  have h1: "current_mode (snd (mode_controller_update mode_controller_init True True True False 0))
              = MODE_NORMAL"
    by (simp add: component_defs Let_def)
  have h2: "\<not> mode_controller_can_transition MODE_SLEEP
               (determine_target_mode MODE_SLEEP True True True False 0)"
    by (simp add: component_defs)
  have h3: "(MODE_SLEEP, MODE_NORMAL) \<notin> set valid_transitions"
    by (simp add: valid_transitions_def)
  show ?thesis
    using h1 h2 h3
      mode_transitions_follow_table
        [of mode_controller_init True True True False 0 MODE_SLEEP MODE_NORMAL
            "[(True, True, True, False, 0)]"]
      mode_transitions_follow_table
        [of "mode_controller_init\<lparr>current_mode := MODE_SLEEP\<rparr>" True True True False 0
            MODE_SLEEP MODE_NORMAL "[]"]
    by (simp add: mode_controller_init_def)
qed

section \<open>Pin store: the two set entry points\<close>

text \<open>
  \<open>pin_manager_set_pin\<close> accepts exactly when the pin is input-capable and the voltage
  passes \<open>pin_validate_voltage\<close> (in range, or 0 on a pin not stored as ANALOG), and a
  rejected call changes nothing.
\<close>

lemma pin_manager_set_pin_accepts:
  "fst (pin_manager_set_pin m (pin_index p) st v) \<longleftrightarrow>
     is_input (m p)
     \<and> ((min_voltage (m p) \<le> v \<and> v \<le> max_voltage (m p))
        \<or> (pin_state (m p) \<noteq> PIN_STATE_ANALOG \<and> v = 0))"
  using pin_index_range [of p]
  by (auto simp: pin_manager_set_pin_def pin_of_index_pin_index pin_set_value_def
      pin_validate_voltage_def)

lemma pin_manager_set_pin_rejects:
  "\<not> fst (pin_manager_set_pin m i st v) \<Longrightarrow> snd (pin_manager_set_pin m i st v) = m"
  by (auto simp: pin_manager_set_pin_def pin_set_value_def split: option.splits if_splits)

lemma simulator_set_pin_accepts:
  "fst (tcan1463q1_simulator_set_pin sim (pin_index p) st v)
     = pin_validate_voltage (pins sim p) v"
  using pin_index_range [of p]
  by (simp add: tcan1463q1_simulator_set_pin_def pin_of_index_pin_index pin_set_value_def)

lemma created_RXD:
  "pins (snd (tcan1463q1_simulator_create g)) PIN_RXD =
     \<lparr>pin_state = PIN_STATE_HIGH, voltage = 0, is_input = False, is_output = True,
      min_voltage = 0, max_voltage = 55 / 10\<rparr>"
  by (simp add: tcan1463q1_simulator_create_def tcan1463q1_simulator_reset_def
      pin_manager_init_def Let_def pin_init_def pin_voltage_ranges_def pin_directions_def)

text \<open>
  C2.  On a freshly created instance RXD is output-only and reads HIGH.
  \<open>tcan1463q1_simulator_set_pin\<close>, the set operation of the simulator, is called for RXD
  with (LOW, 0.0): it returns true and RXD reads LOW afterwards.  The pin manager's
  \<open>pin_manager_set_pin\<close> rejects the same call on the same pins and leaves them as they
  were.
\<close>

theorem simulator_set_pin_drives_output_pin:
  "\<not> is_input (pins (snd (tcan1463q1_simulator_create statics_at_load)) PIN_RXD)
   \<and> pin_state (pins (snd (tcan1463q1_simulator_create statics_at_load)) PIN_RXD)
       = PIN_STATE_HIGH
   \<and> fst (tcan1463q1_simulator_set_pin (snd (tcan1463q1_simulator_create statics_at_load))
            (pin_index PIN_RXD) PIN_STATE_LOW 0)
   \<and> pin_state (pins (snd (tcan1463q1_simulator_set_pin
                             (snd (tcan1463q1_simulator_create statics_at_load))
                             (pin_index PIN_RXD) PIN_STATE_LOW 0)) PIN_RXD)
       = PIN_STATE_LOW
   \<and> pin_manager_set_pin (pins (snd (tcan1463q1_simulator_create statics_at_load)))
        (pin_index PIN_RXD) PIN_STATE_LOW 0
       = (False, pins (snd (tcan1463q1_simulator_create statics_at_load)))"
proof -
  let ?s = "snd (tcan1463q1_simulator_create statics_at_load)"
  have r: "pins ?s PIN_RXD =
     \<lparr>pin_state = PIN_STATE_HIGH, voltage = 0, is_input = False, is_output = True,
      min_voltage = 0, max_voltage = 55 / 10\<rparr>"
    by (rule created_RXD)
  have a: "fst (tcan1463q1_simulator_set_pin ?s (pin_index PIN_RXD) PIN_STATE_LOW 0)"
    by (simp add: simulator_set_pin_accepts r pin_validate_voltage_def)
  have b: "pin_state (pins (snd (tcan1463q1_simulator_set_pin ?s (pin_index PIN_RXD)
                                   PIN_STATE_LOW 0)) PIN_RXD) = PIN_STATE_LOW"
    by (simp add: tcan1463q1_simulator_set_pin_def pin_index_def pin_of_index_def r
        pin_set_value_def pin_validate_voltage_def)
  have c: "pin_manager_set_pin (pins ?s) (pin_index PIN_RXD) PIN_STATE_LOW 0
             = (False, pins ?s)"
    by (simp add: pin_manager_set_pin_def pin_index_def pin_of_index_def r)
  show ?thesis using a b c by (simp add: r)
qed

section \<open>Simulation step: which pins it writes\<close>

lemma step_write_outputs_frame:
  "p \<noteq> PIN_RXD \<Longrightarrow> p \<noteq> PIN_NFAULT \<Longrightarrow> p \<noteq> PIN_INH \<Longrightarrow>
   step_write_outputs ps r n v inh p = ps p"
  by (simp add: step_write_outputs_def pins_set_value_def Let_def split: option.splits)

lemma step_drive_bus_frame:
  "p \<noteq> PIN_CANH \<Longrightarrow> p \<noteq> PIN_CANL \<Longrightarrow> fst (step_drive_bus ps tr fs bb t v) p = ps p"
  by (simp add: step_drive_bus_def pins_set_value_def Let_def)

lemma step_keeps_pin:
  "p \<noteq> PIN_CANH \<Longrightarrow> p \<noteq> PIN_CANL \<Longrightarrow> p \<noteq> PIN_RXD \<Longrightarrow> p \<noteq> PIN_NFAULT \<Longrightarrow> p \<noteq> PIN_INH \<Longrightarrow>
   pins (snd (tcan1463q1_simulator_step g sim d)) p = pins sim p"
  by (simp add: tcan1463q1_simulator_step_def Let_def step_write_outputs_frame
      step_drive_bus_frame)

text \<open>
  C9.  A step leaves the whole pin record (state, voltage, direction, range) of TXD, EN,
  nSTB, WAKE, INH\_MASK, VSUP, VCC, VIO and GND as it was: the only entries of the pin
  array a step can change are CANH, CANL, RXD, NFAULT and INH.
\<close>

theorem step_frame_input_pins:
  "p \<in> {PIN_TXD, PIN_EN, PIN_NSTB, PIN_WAKE, PIN_INH_MASK, PIN_VSUP, PIN_VCC, PIN_VIO,
          PIN_GND} \<Longrightarrow>
   pins (snd (tcan1463q1_simulator_step g sim d)) p = pins sim p"
  by (auto simp: step_keeps_pin)

theorem step_frame_input_pins_witness:
  "PIN_TXD \<in> {PIN_TXD, PIN_EN, PIN_NSTB, PIN_WAKE, PIN_INH_MASK, PIN_VSUP, PIN_VCC, PIN_VIO,
          PIN_GND}
   \<and> pins (snd (tcan1463q1_simulator_step (fst scenario_txd_low) (snd scenario_txd_low) 100))
        PIN_TXD = pins (snd scenario_txd_low) PIN_TXD"
proof -
  have h: "PIN_TXD \<in> {PIN_TXD, PIN_EN, PIN_NSTB, PIN_WAKE, PIN_INH_MASK, PIN_VSUP, PIN_VCC,
             PIN_VIO, PIN_GND}"
    by simp
  from step_frame_input_pins [OF h, of "fst scenario_txd_low" "snd scenario_txd_low" 100] h
  show ?thesis by simp
qed

section \<open>Simulation step: flags on entry into Normal\<close>

lemma mode_update_returns_current:
  "fst (mode_controller_update st e n v w t)
     = current_mode (snd (mode_controller_update st e n v w t))"
  by (simp add: mode_controller_update_def Let_def)

lemma wakesr_update_mono:
  "wakesr_flag st \<Longrightarrow> wakesr_flag (wake_handler_update st b wp m t)"
  by (simp add: wake_handler_update_def wake_handler_process_wup_def
      wake_handler_process_lwu_def wup_reset_def Let_def split: WUPState.splits)

lemma clear_flags_keeps_wakesr:
  "wakesr_flag (wake_handler_clear_flags ws) = wakesr_flag ws"
  by (simp add: wake_handler_clear_flags_def wup_reset_def)

lemma step_wakesr:
  "wakesr_flag (wake_state (snd (tcan1463q1_simulator_step g sim d)))
     = wakesr_flag (step_wake_state sim d)"
  by (simp add: tcan1463q1_simulator_step_def Let_def clear_flags_keeps_wakesr)

lemma scenario_standby_eval:
  "current_mode (mode_state (snd scenario_standby)) = MODE_STANDBY
   \<and> wakerq_flag (wake_state (snd scenario_standby))
   \<and> wakesr_flag (wake_state (snd scenario_standby))"
  by (simp add: component_defs kernel_defs scenario_defs Let_def cong: let_weak_cong)

lemma scenario_standby_next_mode:
  "current_mode (mode_state (snd (tcan1463q1_simulator_step (fst scenario_standby)
      (snd scenario_standby) 1000))) = MODE_NORMAL"
  by (simp add: component_defs kernel_defs scenario_defs Let_def cong: let_weak_cong)

text \<open>
  C8.  When a step starts in a mode other than Normal and ends in Normal, the state it
  leaves has the power-on flag and the wake-request flag cleared.  The
  wake-source-recognized flag is not touched by \<open>wake_handler_clear_flags\<close>: after the
  step it is what the wake handler update of that step left, and a flag set before the
  step is still set after it.
\<close>

theorem normal_entry_clears_flags:
  assumes "current_mode (mode_state sim) \<noteq> MODE_NORMAL"
    and "current_mode (mode_state (snd (tcan1463q1_simulator_step g sim d))) = MODE_NORMAL"
  shows "\<not> pwron_flag (power_state (snd (tcan1463q1_simulator_step g sim d)))
    \<and> \<not> wakerq_flag (wake_state (snd (tcan1463q1_simulator_step g sim d)))
    \<and> wakesr_flag (wake_state (snd (tcan1463q1_simulator_step g sim d)))
        = wakesr_flag (step_wake_state sim d)
    \<and> (wakesr_flag (wake_state sim) \<longrightarrow>
         wakesr_flag (wake_state (snd (tcan1463q1_simulator_step g sim d))))
    \<and> wakesr_flag (wake_handler_clear_flags ws) = wakesr_flag ws"
proof -
  have a: "\<not> pwron_flag (power_state (snd (tcan1463q1_simulator_step g sim d)))"
    using assms
    by (simp add: tcan1463q1_simulator_step_def Let_def mode_update_returns_current
        power_monitor_clear_pwron_flag_def)
  have b: "\<not> wakerq_flag (wake_state (snd (tcan1463q1_simulator_step g sim d)))"
    using assms
    by (simp add: tcan1463q1_simulator_step_def Let_def mode_update_returns_current
        wake_handler_clear_flags_def wup_reset_def)
  have c: "wakesr_flag (wake_state sim) \<longrightarrow>
         wakesr_flag (wake_state (snd (tcan1463q1_simulator_step g sim d)))"
    by (simp add: step_wakesr step_wake_state_def wakesr_update_mono)
  show ?thesis using a b c by (simp add: step_wakesr clear_flags_keeps_wakesr)
qed

theorem normal_entry_clears_flags_witness:
  "current_mode (mode_state (snd scenario_standby)) \<noteq> MODE_NORMAL
   \<and> wakerq_flag (wake_state (snd scenario_standby))
   \<and> wakesr_flag (wake_state (snd scenario_standby))
   \<and> current_mode (mode_state (snd (tcan1463q1_simulator_step (fst scenario_standby)
        (snd scenario_standby) 1000))) = MODE_NORMAL
   \<and> \<not> pwron_flag (power_state (snd (tcan1463q1_simulator_step (fst scenario_standby)
        (snd scenario_standby) 1000)))
   \<and> \<not> wakerq_flag (wake_state (snd (tcan1463q1_simulator_step (fst scenario_standby)
        (snd scenario_standby) 1000)))
   \<and> wakesr_flag (wake_state (snd (tcan1463q1_simulator_step (fst scenario_standby)
        (snd scenario_standby) 1000)))"
proof -
  note ev = scenario_standby_eval
  have h1: "current_mode (mode_state (snd scenario_standby)) \<noteq> MODE_NORMAL"
    using ev by simp
  have h2: "wakerq_flag (wake_state (snd scenario_standby))"
    by (rule ev [THEN conjunct2, THEN conjunct1])
  have h3: "wakesr_flag (wake_state (snd scenario_standby))"
    by (rule ev [THEN conjunct2, THEN conjunct2])
  note t = normal_entry_clears_flags [OF h1 scenario_standby_next_mode]
  have a: "\<not> pwron_flag (power_state (snd (tcan1463q1_simulator_step (fst scenario_standby)
        (snd scenario_standby) 1000)))"
    by (rule t [THEN conjunct1])
  have b: "\<not> wakerq_flag (wake_state (snd (tcan1463q1_simulator_step (fst scenario_standby)
        (snd scenario_standby) 1000)))"
    by (rule t [THEN conjunct2, THEN conjunct1])
  have c: "wakesr_flag (wake_state (snd (tcan1463q1_simulator_step (fst scenario_standby)
        (snd scenario_standby) 1000)))"
    by (rule t [THEN conjunct2, THEN conjunct2, THEN conjunct2, THEN conjunct1, THEN mp])
       (rule h3)
  show ?thesis
    apply (intro conjI)
          apply (rule h1)
         apply (rule h2)
        apply (rule h3)
       apply (rule scenario_standby_next_mode)
      apply (rule a)
     apply (rule b)
    apply (rule c)
    done
qed

section \<open>Simulation step: the fault indicator\<close>

lemma pin_set_value_ranges:
  "min_voltage (snd (pin_set_value pin st v)) = min_voltage pin"
  "max_voltage (snd (pin_set_value pin st v)) = max_voltage pin"
  by (simp_all add: pin_set_value_def)

lemma pin_set_value_voltage:
  "voltage (snd (pin_set_value pin st v)) = voltage pin
   \<or> (voltage (snd (pin_set_value pin st v)) = v
       \<and> (v = 0 \<or> (min_voltage pin \<le> v \<and> v \<le> max_voltage pin)))"
  by (auto simp: pin_set_value_def pin_validate_voltage_def)

lemma vio_domain_ok_create: "vio_domain_ok (pins (snd (tcan1463q1_simulator_create g)))"
  by (simp add: vio_domain_ok_def tcan1463q1_simulator_create_def
      tcan1463q1_simulator_reset_def pin_manager_init_def Let_def pin_init_def
      pin_voltage_ranges_def pin_directions_def)

lemma vio_domain_ok_reset: "vio_domain_ok (pins (snd (tcan1463q1_simulator_reset g sim)))"
  by (simp add: vio_domain_ok_def tcan1463q1_simulator_reset_def pin_manager_init_def
      Let_def pin_init_def pin_voltage_ranges_def pin_directions_def)

lemma vio_domain_ok_upd:
  assumes "vio_domain_ok ps"
  shows "vio_domain_ok (ps(p := snd (pin_set_value (ps p) st v)))"
  using assms pin_set_value_voltage [of "ps PIN_VIO" st v]
  by (auto simp: vio_domain_ok_def pin_set_value_ranges)

lemma vio_domain_ok_set_pin:
  "vio_domain_ok (pins sim) \<Longrightarrow>
   vio_domain_ok (pins (snd (tcan1463q1_simulator_set_pin sim i st v)))"
  by (auto simp: tcan1463q1_simulator_set_pin_def vio_domain_ok_upd split: option.splits)

lemma step_write_outputs_NFAULT:
  "step_write_outputs ps r n v inh PIN_NFAULT =
     snd (pin_set_value (ps PIN_NFAULT) (if n then PIN_STATE_LOW else PIN_STATE_HIGH)
            (if n then 0 else v))"
  by (simp add: step_write_outputs_def pins_set_value_def Let_def split: option.splits)

lemma step_pins_NFAULT:
  "pins (snd (tcan1463q1_simulator_step g sim d)) PIN_NFAULT =
     (let n = (fault_detector_get_nfault_state
                 (fault_state (snd (tcan1463q1_simulator_step g sim d)))
               \<or> wake_handler_get_wakerq (step_wake_state sim d))
      in snd (pin_set_value (pins sim PIN_NFAULT)
                (if n then PIN_STATE_LOW else PIN_STATE_HIGH)
                (if n then 0 else snd (pin_get_value (pins sim PIN_VIO)))))"
  by (simp add: tcan1463q1_simulator_step_def Let_def step_write_outputs_NFAULT
      step_drive_bus_frame)

lemma vio_domain_ok_step:
  assumes "vio_domain_ok (pins sim)"
  shows "vio_domain_ok (pins (snd (tcan1463q1_simulator_step g sim d)))"
proof -
  have "pins (snd (tcan1463q1_simulator_step g sim d)) PIN_VIO = pins sim PIN_VIO"
    by (rule step_keeps_pin) simp_all
  moreover have "min_voltage (pins (snd (tcan1463q1_simulator_step g sim d)) PIN_NFAULT)
                   = min_voltage (pins sim PIN_NFAULT)"
    "max_voltage (pins (snd (tcan1463q1_simulator_step g sim d)) PIN_NFAULT)
                   = max_voltage (pins sim PIN_NFAULT)"
    by (simp_all add: step_pins_NFAULT Let_def pin_set_value_ranges)
  ultimately show ?thesis using assms by (simp add: vio_domain_ok_def)
qed

lemma vio_domain_ok_wake_input: "vio_domain_ok (pins (snd scenario_wake_input))"
  by (simp add: scenario_wake_input_def scenario_normal_def scenario_powered_def
      set_pin_on_def step_on_def vio_domain_ok_set_pin vio_domain_ok_step
      vio_domain_ok_create)

lemma scenario_wake_step_eval:
  "pin_state (pins (snd (step_on scenario_wake_input 1000)) PIN_NFAULT) = PIN_STATE_LOW
   \<and> fault_state (snd (step_on scenario_wake_input 1000))
       = fault_detector_init\<lparr>txd_dominant_start := 700003000\<rparr>
   \<and> wakerq_flag (step_wake_state (snd scenario_wake_input) 1000)
   \<and> current_mode (mode_state (snd scenario_wake_input)) = MODE_SLEEP"
  by (simp add: component_defs kernel_defs scenario_defs Let_def cong: let_weak_cong)

text \<open>
  C1, as the code has it.  On every state whose nFAULT and VIO pins have their table
  ranges and whose VIO pin holds 0 or a voltage of its range (true after creation and
  reset, and kept by every pin set and every step), the state a step leaves has the
  nFAULT pin LOW when at least one of the six fault flags of that state is set or the
  wake-request flag was set when the wake handler had run in that step, and HIGH
  otherwise.
\<close>

theorem nfault_low_iff_fault_or_wakerq:
  assumes "vio_domain_ok (pins sim)"
  shows "pin_state (pins (snd (tcan1463q1_simulator_step g sim d)) PIN_NFAULT) =
     (if fault_detector_has_any_fault (fault_state (snd (tcan1463q1_simulator_step g sim d)))
         \<or> wakerq_flag (step_wake_state sim d)
      then PIN_STATE_LOW else PIN_STATE_HIGH)
   \<and> vio_domain_ok (pins (snd (tcan1463q1_simulator_step g sim d)))"
proof -
  have "pin_state (pins (snd (tcan1463q1_simulator_step g sim d)) PIN_NFAULT) =
     (if fault_detector_has_any_fault (fault_state (snd (tcan1463q1_simulator_step g sim d)))
         \<or> wakerq_flag (step_wake_state sim d)
      then PIN_STATE_LOW else PIN_STATE_HIGH)"
    using assms
    by (auto simp: step_pins_NFAULT Let_def vio_domain_ok_def pin_set_value_def
        pin_validate_voltage_def pin_get_value_def fault_detector_get_nfault_state_def
        wake_handler_get_wakerq_def)
  then show ?thesis using vio_domain_ok_step [OF assms] by simp
qed

theorem nfault_low_iff_fault_or_wakerq_witness:
  "vio_domain_ok (pins (snd scenario_powered))
   \<and> pin_state (pins (snd (tcan1463q1_simulator_step (fst scenario_powered)
        (snd scenario_powered) 1000)) PIN_NFAULT)
      = (if fault_detector_has_any_fault (fault_state (snd (tcan1463q1_simulator_step
              (fst scenario_powered) (snd scenario_powered) 1000)))
            \<or> wakerq_flag (step_wake_state (snd scenario_powered) 1000)
         then PIN_STATE_LOW else PIN_STATE_HIGH)"
proof -
  have h: "vio_domain_ok (pins (snd scenario_powered))"
    by (simp add: scenario_powered_def set_pin_on_def vio_domain_ok_set_pin
        vio_domain_ok_create)
  from nfault_low_iff_fault_or_wakerq [OF h, of "fst scenario_powered" 1000] h
  show ?thesis by simp
qed

text \<open>
  C1 as stated fails.  In Sleep mode the WAKE pin is toggled; the next step sets the
  wake request and leaves the nFAULT pin LOW while none of the six fault flags is set.
\<close>

theorem nfault_low_without_fault:
  "pin_state (pins (snd (step_on scenario_wake_input 1000)) PIN_NFAULT) = PIN_STATE_LOW
   \<and> \<not> fault_detector_has_any_fault (fault_state (snd (step_on scenario_wake_input 1000)))"
  using scenario_wake_step_eval
  by (simp add: fault_detector_has_any_fault_def fault_detector_init_def)

section \<open>Snapshot and restore\<close>

lemma restore_of_snapshot:
  "tcan1463q1_simulator_restore sz y (tcan1463q1_simulator_snapshot sz True True x)
     = (True, x\<lparr>inh_controller_ptr := inh_controller_ptr y\<rparr>)"
  by (simp add: tcan1463q1_simulator_restore_def tcan1463q1_simulator_snapshot_def)

lemma restore_success_size:
  "fst (tcan1463q1_simulator_restore sz y sn) \<Longrightarrow> map_option snap_size sn = Some sz"
  by (auto simp: tcan1463q1_simulator_restore_def split: option.splits if_splits)

lemma restore_failure_unchanged:
  "\<not> fst (tcan1463q1_simulator_restore sz y sn) \<Longrightarrow>
   snd (tcan1463q1_simulator_restore sz y sn) = y"
  by (auto simp: tcan1463q1_simulator_restore_def split: option.splits if_splits)

text \<open>
  C6.  With both allocations of the snapshot succeeding, restoring the snapshot of \<open>x\<close>
  into a live instance \<open>y\<close> succeeds and yields \<open>x\<close> with the INH controller of \<open>y\<close>
  (the pointer is kept); restored into \<open>x\<close> itself it yields \<open>x\<close>.  Every query (mode, the
  twelve flags, every pin, the simulated time) answers on the result as on \<open>x\<close>.  A restore
  that succeeds had a snapshot whose size is the structure size, and a restore that fails
  returns the instance unchanged.
\<close>

theorem restore_snapshot_identity:
  "tcan1463q1_simulator_restore sz y (tcan1463q1_simulator_snapshot sz True True x)
     = (True, x\<lparr>inh_controller_ptr := inh_controller_ptr y\<rparr>)
   \<and> tcan1463q1_simulator_restore sz x (tcan1463q1_simulator_snapshot sz True True x)
       = (True, x)
   \<and> tcan1463q1_simulator_get_mode
        (snd (tcan1463q1_simulator_restore sz y (tcan1463q1_simulator_snapshot sz True True x)))
       = tcan1463q1_simulator_get_mode x
   \<and> tcan1463q1_simulator_get_flags
        (snd (tcan1463q1_simulator_restore sz y (tcan1463q1_simulator_snapshot sz True True x)))
       = tcan1463q1_simulator_get_flags x
   \<and> tcan1463q1_simulator_get_pin
        (snd (tcan1463q1_simulator_restore sz y (tcan1463q1_simulator_snapshot sz True True x))) i
       = tcan1463q1_simulator_get_pin x i
   \<and> timing_engine_get_time (timing
        (snd (tcan1463q1_simulator_restore sz y (tcan1463q1_simulator_snapshot sz True True x))))
       = timing_engine_get_time (timing x)
   \<and> (fst (tcan1463q1_simulator_restore sz y sn) \<longrightarrow> map_option snap_size sn = Some sz)
   \<and> (\<not> fst (tcan1463q1_simulator_restore sz y sn) \<longrightarrow>
        snd (tcan1463q1_simulator_restore sz y sn) = y)"
  using restore_success_size [of sz y sn] restore_failure_unchanged [of sz y sn]
  by (simp add: restore_of_snapshot tcan1463q1_simulator_get_mode_def
      tcan1463q1_simulator_get_flags_def tcan1463q1_simulator_get_pin_def)

theorem restore_snapshot_identity_witness:
  "fst (tcan1463q1_simulator_restore 1024 (snd scenario_powered)
          (tcan1463q1_simulator_snapshot 1024 True True (snd scenario_powered)))
   \<and> map_option snap_size (tcan1463q1_simulator_snapshot 1024 True True (snd scenario_powered))
       = Some 1024
   \<and> \<not> fst (tcan1463q1_simulator_restore 1024 (snd scenario_powered)
            (Some \<lparr>snap_data = Some (snd scenario_powered), snap_size = 1000\<rparr>))
   \<and> snd (tcan1463q1_simulator_restore 1024 (snd scenario_powered)
            (Some \<lparr>snap_data = Some (snd scenario_powered), snap_size = 1000\<rparr>))
       = snd scenario_powered"
proof -
  let ?x = "snd scenario_powered"
  have h1: "fst (tcan1463q1_simulator_restore 1024 ?x
                   (tcan1463q1_simulator_snapshot 1024 True True ?x))"
    by (simp add: tcan1463q1_simulator_restore_def tcan1463q1_simulator_snapshot_def)
  have h2: "\<not> fst (tcan1463q1_simulator_restore 1024 ?x
                   (Some \<lparr>snap_data = Some ?x, snap_size = 1000\<rparr>))"
    by (simp add: tcan1463q1_simulator_restore_def)
  note t1 = restore_snapshot_identity
      [of 1024 ?x ?x _ "tcan1463q1_simulator_snapshot 1024 True True ?x"]
  note t2 = restore_snapshot_identity
      [of 1024 ?x ?x _ "Some \<lparr>snap_data = Some ?x, snap_size = 1000\<rparr>"]
  have a: "map_option snap_size (tcan1463q1_simulator_snapshot 1024 True True ?x) = Some 1024"
    by (rule t1 [THEN conjunct2, THEN conjunct2, THEN conjunct2, THEN conjunct2,
          THEN conjunct2, THEN conjunct2, THEN conjunct1, THEN mp, OF h1])
  have b: "snd (tcan1463q1_simulator_restore 1024 ?x
                   (Some \<lparr>snap_data = Some ?x, snap_size = 1000\<rparr>)) = ?x"
    by (rule t2 [THEN conjunct2, THEN conjunct2, THEN conjunct2, THEN conjunct2,
          THEN conjunct2, THEN conjunct2, THEN conjunct2, THEN mp, OF h2])
  show ?thesis
    apply (intro conjI)
       apply (rule h1)
      apply (rule a)
     apply (rule h2)
    apply (rule b)
    done
qed

section \<open>Fault detector: the TXD/RXD short check inside the update\<close>

text \<open>While TXD is high, \<open>fault_detector_update\<close> never changes the short flag: the
  dominant-timeout check resets the shared start time before the short check reads it.\<close>

lemma update_txd_high_keeps_txdrxd:
  "txdrxd_flag (snd (fault_detector_update g st False rxd_low bus tj t m)) = txdrxd_flag st"
  by (simp add: fault_detector_update_def fault_detector_check_txddto_def
      fault_detector_check_txdrxd_def fault_detector_check_candom_def
      fault_detector_check_tsd_def fault_detector_check_cbf_def Let_def)

text \<open>
  C4.  TXD and RXD are both high at time 0 and still both high 1.3 ms later, longer than
  the 1.2 ms bound.  Through \<open>fault_detector_update\<close>, as the step function runs the
  checks, the short flag stays clear after the second update; it stays clear for any
  state, time and RXD level as long as TXD is high.  The short check called alone on the
  same two samples sets the flag.
\<close>

theorem txdrxd_both_high_never_flagged:
  "\<not> txdrxd_flag (snd (fault_detector_update
        (fst (fault_detector_update statics_at_load fault_detector_init False False
                BUS_STATE_RECESSIVE 25 0 MODE_NORMAL))
        (snd (fault_detector_update statics_at_load fault_detector_init False False
                BUS_STATE_RECESSIVE 25 0 MODE_NORMAL))
        False False BUS_STATE_RECESSIVE 25 1300000 MODE_NORMAL))
   \<and> txdrxd_flag (snd (fault_detector_update g st False rxd_low bus tj t m)) = txdrxd_flag st
   \<and> txdrxd_flag (fault_detector_check_txdrxd
         (fault_detector_check_txdrxd fault_detector_init False False 0) False False 1300000)"
proof -
  have a: "txdrxd_flag (fault_detector_check_txdrxd
         (fault_detector_check_txdrxd fault_detector_init False False 0) False False 1300000)"
    by (simp add: fault_detector_check_txdrxd_def fault_detector_init_def UINT64_MAX_def
        TTXDDTO_MIN_NS_def Let_def)
  show ?thesis using a
    by (simp add: update_txd_high_keeps_txdrxd fault_detector_init_def)
qed

section \<open>Two instances and the static variables\<close>

lemma world_first_alone_eval:
  "(let a = fst (snd world_first_alone) in
      fault_state a = fault_detector_init\<lparr>txd_dominant_start := 5000\<rparr>
      \<and> pin_state (pins a PIN_NFAULT) = PIN_STATE_HIGH
      \<and> pin_state (pins a PIN_TXD) = PIN_STATE_HIGH
      \<and> current_mode (mode_state a) = MODE_NORMAL
      \<and> current_time_ns (timing a) = 5000)"
  by (simp add: component_defs kernel_defs scenario_defs Let_def cong: let_weak_cong)

lemma world_interleaved_eval:
  "(let a = fst (snd world_interleaved) in
      fault_state a = fault_detector_init\<lparr>txd_dominant_start := 5000, cbf_flag := True,
                                            cbf_transition_count := 4\<rparr>
      \<and> pin_state (pins a PIN_NFAULT) = PIN_STATE_LOW
      \<and> pin_state (pins a PIN_TXD) = PIN_STATE_HIGH
      \<and> current_mode (mode_state a) = MODE_NORMAL
      \<and> current_time_ns (timing a) = 5000)"
  by (simp add: component_defs kernel_defs scenario_defs Let_def cong: let_weak_cong)

text \<open>
  C7.  Two instances are created and brought to Normal with TXD high.  The first is
  stepped five times by 1 us.  When nothing else runs, it ends with no fault flag set and
  nFAULT high.  When the second instance, with TXD low, is stepped in between, the first
  ends with the bus-fault-streak flag set and nFAULT low, although the calls made on the
  first instance and its own inputs are the same: each step of the second instance leaves
  \<open>prev_bus_state\<close> dominant, and the next step of the first counts a
  dominant-to-recessive transition its own bus never made.
\<close>

theorem static_state_couples_instances:
  "\<not> cbf_flag (fault_state (fst (snd world_first_alone)))
   \<and> pin_state (pins (fst (snd world_first_alone)) PIN_NFAULT) = PIN_STATE_HIGH
   \<and> cbf_flag (fault_state (fst (snd world_interleaved)))
   \<and> pin_state (pins (fst (snd world_interleaved)) PIN_NFAULT) = PIN_STATE_LOW"
  using world_first_alone_eval world_interleaved_eval
  by (simp add: Let_def fault_detector_init_def)

section \<open>Receive output: an edge that arrives while another is pending\<close>

text \<open>
  The comment in \<open>can_transceiver_update_rxd\<close> announces that a pending update for a
  different value is replaced.  The test for it sits behind \<open>needs_update\<close>, so it is
  never reached in the case it is meant for: when the bus is back at the level RXD still
  shows, a pending update to the opposite level that is not yet due stays scheduled, and
  the call changes nothing.
\<close>

lemma update_rxd_keeps_opposite_pending:
  assumes "receiver_enabled tr" "rxd_pending tr" "current_time < rxd_update_time tr"
    "bus \<noteq> BUS_STATE_INDETERMINATE" "(bus = BUS_STATE_RECESSIVE) = rxd_output tr"
  shows "can_transceiver_update_rxd tr bus current_time schedule_time = tr"
  using assms
  by (cases bus) (auto simp: can_transceiver_update_rxd_def Let_def)

lemma scenario_pulse_eval:
  "(let s1 = snd scenario_pulse;
        r2 = step_on scenario_pulse 50; r3 = step_on r2 50; r4 = step_on r3 90;
        r5 = step_on r4 10 in
      current_time_ns (timing s1) = 1050
      \<and> pin_state (pins s1 PIN_TXD) = PIN_STATE_HIGH
      \<and> bus_reading s1 = BUS_STATE_DOMINANT
      \<and> pin_state (pins s1 PIN_RXD) = PIN_STATE_HIGH
      \<and> current_time_ns (timing (snd r2)) = 1100
      \<and> bus_reading (snd r2) = BUS_STATE_RECESSIVE
      \<and> pin_state (pins (snd r2) PIN_RXD) = PIN_STATE_HIGH
      \<and> receiver_enabled (can_xcvr (snd r2))
      \<and> rxd_pending (can_xcvr (snd r2))
      \<and> rxd_pending_value (can_xcvr (snd r2)) = False
      \<and> rxd_update_time (can_xcvr (snd r2)) = 1145
      \<and> current_time_ns (timing (snd r3)) = 1150
      \<and> bus_reading (snd r3) = BUS_STATE_RECESSIVE
      \<and> pin_state (pins (snd r3) PIN_RXD) = PIN_STATE_LOW
      \<and> receiver_enabled (can_xcvr (snd r3))
      \<and> rxd_pending (can_xcvr (snd r3))
      \<and> rxd_pending_value (can_xcvr (snd r3)) = True
      \<and> rxd_update_time (can_xcvr (snd r3)) = 1250
      \<and> current_time_ns (timing (snd r4)) = 1240
      \<and> bus_reading (snd r4) = BUS_STATE_RECESSIVE
      \<and> pin_state (pins (snd r4) PIN_RXD) = PIN_STATE_LOW
      \<and> receiver_enabled (can_xcvr (snd r4))
      \<and> current_time_ns (timing (snd r5)) = 1250
      \<and> pin_state (pins (snd r5) PIN_RXD) = PIN_STATE_HIGH)"
  by (simp add: component_defs kernel_defs scenario_defs Let_def cong: let_weak_cong)

text \<open>
  C5.  In Normal mode TXD is low for one step of 50 ns and high again from time 1050 ns
  on.  The step that starts at 1050 ns turns the bus from dominant to recessive, and the
  bus reads recessive after every later step, with the receiver enabled throughout.
  After the step to 1100 ns the falling edge of the pulse is still pending (RXD low, due
  at 1145 ns) although the bus is recessive again.  It comes out in the step to 1150 ns,
  and only then is the rising edge scheduled, for 1250 ns.  So RXD is low after the step
  that ends at 1240 ns, 190 ns after the change to recessive, and takes the recessive
  level only in the step that ends at 1250 ns, 200 ns after it.
\<close>

theorem rxd_later_than_max_delay:
  "current_time_ns (timing (snd scenario_pulse)) = 1050
   \<and> pin_state (pins (snd scenario_pulse) PIN_TXD) = PIN_STATE_HIGH
   \<and> bus_reading (snd scenario_pulse) = BUS_STATE_DOMINANT
   \<and> bus_reading (snd (step_on scenario_pulse 50)) = BUS_STATE_RECESSIVE
   \<and> receiver_enabled (can_xcvr (snd (step_on scenario_pulse 50)))
   \<and> rxd_pending (can_xcvr (snd (step_on scenario_pulse 50)))
   \<and> rxd_pending_value (can_xcvr (snd (step_on scenario_pulse 50))) = False
   \<and> rxd_update_time (can_xcvr (snd (step_on scenario_pulse 50))) = 1145
   \<and> bus_reading (snd (step_on (step_on scenario_pulse 50) 50)) = BUS_STATE_RECESSIVE
   \<and> receiver_enabled (can_xcvr (snd (step_on (step_on scenario_pulse 50) 50)))
   \<and> rxd_pending_value (can_xcvr (snd (step_on (step_on scenario_pulse 50) 50))) = True
   \<and> rxd_update_time (can_xcvr (snd (step_on (step_on scenario_pulse 50) 50))) = 1250
   \<and> bus_reading (snd (step_on (step_on (step_on scenario_pulse 50) 50) 90))
       = BUS_STATE_RECESSIVE
   \<and> receiver_enabled (can_xcvr (snd (step_on (step_on (step_on scenario_pulse 50) 50) 90)))
   \<and> current_time_ns (timing (snd (step_on (step_on (step_on scenario_pulse 50) 50) 90)))
       = 1240
   \<and> pin_state (pins (snd (step_on (step_on (step_on scenario_pulse 50) 50) 90)) PIN_RXD)
       = PIN_STATE_LOW
   \<and> (1050 :: u64) + TPROP_LOOP2_MAX_NS \<le> 1240
   \<and> current_time_ns (timing
        (snd (step_on (step_on (step_on (step_on scenario_pulse 50) 50) 90) 10))) = 1250
   \<and> pin_state (pins
        (snd (step_on (step_on (step_on (step_on scenario_pulse 50) 50) 90) 10)) PIN_RXD)
       = PIN_STATE_HIGH"
  using scenario_pulse_eval
  by (simp add: Let_def TPROP_LOOP2_MAX_NS_def)

end
